theory Spec2Isabelle
  imports Complex_Main
begin

section \<open>Values of the runtime\<close>

text \<open>
  A JavaScript \<open>number\<close> that is stored or computed with is modelled as a real (no
  rounding error, no infinities), a \<open>Date\<close> as its \<open>getTime()\<close> value in milliseconds, and
  an optional or nullable field as an \<open>option\<close>. A thrown \<open>Error\<close> carries its message; the
  store's own failure on a missing row is a constructor of its own.
\<close>

type_synonym ident = string
type_synonym date = int
type_synonym number = real

datatype error =
    Error string
  | RecordNotFound

text \<open>
  Where the code compares a value of type \<open>number\<close> that comes from outside (the
  rating that reaches the check of \<open>addReview\<close>, a confidence the vision service
  reports, the threshold read from the environment with \<open>parseFloat\<close>), the value is a
  \<open>jsnum\<close>: a number or \<open>NaN\<close>. Every comparison with \<open>NaN\<close> is false. A field the
  sender left out is \<open>undefined\<close>, which a comparison reads as \<open>NaN\<close>.
\<close>

datatype jsnum = Num number | NaN

definition js_lt :: "jsnum \<Rightarrow> jsnum \<Rightarrow> bool" where
  "js_lt a b = (case a of Num x \<Rightarrow> (case b of Num y \<Rightarrow> x < y | NaN \<Rightarrow> False) | NaN \<Rightarrow> False)"

definition js_gt :: "jsnum \<Rightarrow> jsnum \<Rightarrow> bool" where
  "js_gt a b = (case a of Num x \<Rightarrow> (case b of Num y \<Rightarrow> x > y | NaN \<Rightarrow> False) | NaN \<Rightarrow> False)"


definition to_number :: "jsnum option \<Rightarrow> jsnum" where
  "to_number x = (case x of None \<Rightarrow> NaN | Some v \<Rightarrow> v)"

text \<open>
  A property read \<open>table[key]\<close> on an object literal gives the value the literal has
  under the key, or else the member the object inherits under that name from
  \<open>Object.prototype\<close> (a function, or for \<open>__proto__\<close> the prototype object, all of
  them truthy), or else \<open>undefined\<close>.
\<close>

datatype 'a member = Own 'a | Inherited string

definition Object_prototype :: "string list" where
  "Object_prototype =
     [''constructor'', ''__defineGetter__'', ''__defineSetter__'', ''hasOwnProperty'',
      ''__lookupGetter__'', ''__lookupSetter__'', ''isPrototypeOf'', ''propertyIsEnumerable'',
      ''toString'', ''valueOf'', ''__proto__'', ''toLocaleString'']"

definition property :: "(string \<times> 'a) list \<Rightarrow> string \<Rightarrow> 'a member option" where
  "property table key =
     (case map_of table key of
        Some v \<Rightarrow> Some (Own v)
      | None \<Rightarrow> if key \<in> set Object_prototype then Some (Inherited key) else None)"

text \<open>Truthiness of a nullable number (\<open>if (x)\<close>, \<open>x ? a : b\<close>): \<open>null\<close> and \<open>0\<close> are falsy.\<close>

definition truthy_int :: "int option \<Rightarrow> bool" where
  "truthy_int x = (case x of None \<Rightarrow> False | Some v \<Rightarrow> v \<noteq> 0)"

text \<open>Truthiness of a nullable string: \<open>null\<close> and the empty string are falsy.\<close>

definition truthy_str :: "string option \<Rightarrow> bool" where
  "truthy_str x = (case x of None \<Rightarrow> False | Some v \<Rightarrow> v \<noteq> [])"

text \<open>\<open>x || d\<close> on numbers: \<open>d\<close> when \<open>x\<close> is \<open>0\<close>.\<close>

definition or_int :: "int \<Rightarrow> int \<Rightarrow> int" where
  "or_int x d = (if x = 0 then d else x)"

definition or_num :: "number option \<Rightarrow> number \<Rightarrow> number" where
  "or_num x d = (case x of None \<Rightarrow> d | Some v \<Rightarrow> if v = 0 then d else v)"

text \<open>\<open>Math.round\<close> rounds half-way cases up; \<open>Math.ceil\<close> is the ceiling.\<close>

definition Math_round :: "number \<Rightarrow> int" where
  "Math_round x = \<lfloor>x + 1 / 2\<rfloor>"

definition Math_ceil :: "number \<Rightarrow> int" where
  "Math_ceil x = \<lceil>x\<rceil>"

text \<open>
  A field of an update's \<open>data\<close> that is \<open>undefined\<close> is left as it is by the store;
  a given value overwrites.
\<close>

definition patch :: "'a option \<Rightarrow> 'a option \<Rightarrow> 'a option" where
  "patch new old = (case new of None \<Rightarrow> old | Some v \<Rightarrow> Some v)"

definition patch1 :: "'a option \<Rightarrow> 'a \<Rightarrow> 'a" where
  "patch1 new old = (case new of None \<Rightarrow> old | Some v \<Rightarrow> v)"

section \<open>The relational store\<close>

text \<open>
  A table is the list of its rows in insertion order. \<open>findUnique\<close> gives the row of a
  key, \<open>prisma_update\<close> rewrites it and fails when there is none, \<open>prisma_delete\<close>
  removes it and fails when there is none.
\<close>

definition findUnique :: "('a \<Rightarrow> ident) \<Rightarrow> ident \<Rightarrow> 'a list \<Rightarrow> 'a option" where
  "findUnique key k rows = find (\<lambda>r. key r = k) rows"

definition prisma_update ::
  "('a \<Rightarrow> ident) \<Rightarrow> ident \<Rightarrow> ('a \<Rightarrow> 'a) \<Rightarrow> 'a list \<Rightarrow> error + ('a \<times> 'a list)" where
  "prisma_update key k f rows =
     (case findUnique key k rows of
        None \<Rightarrow> Inl RecordNotFound
      | Some r \<Rightarrow> Inr (f r, map (\<lambda>x. if key x = k then f x else x) rows))"

definition prisma_delete :: "('a \<Rightarrow> ident) \<Rightarrow> ident \<Rightarrow> 'a list \<Rightarrow> error + 'a list" where
  "prisma_delete key k rows =
     (case findUnique key k rows of
        None \<Rightarrow> Inl RecordNotFound
      | Some r \<Rightarrow> Inr (filter (\<lambda>x. key x \<noteq> k) rows))"

section \<open>The event publisher (rabbitmq.util.ts)\<close>

text \<open>
  \<open>RabbitMQUtil\<close> holds a channel that is \<open>null\<close> until \<open>connect()\<close> has run. A channel
  either accepts a message or throws while publishing. \<open>publishEvent\<close> throws when there
  is no channel and rethrows what the channel throws. What the broker receives has no
  part in the state below, so a published message is not recorded.
\<close>

datatype Channel = Channel (publish_throws: "error option")

record RabbitMQUtil =
  channel :: "Channel option"

definition new_RabbitMQUtil :: RabbitMQUtil where
  "new_RabbitMQUtil = \<lparr>channel = None\<rparr>"

record EventPayload =
  eventType :: string
  entityType :: string
  entityId :: ident

definition publishEvent :: "RabbitMQUtil \<Rightarrow> EventPayload \<Rightarrow> error + unit" where
  "publishEvent mq event =
     (case channel mq of
        None \<Rightarrow> Inl (Error ''RabbitMQ channel not initialized'')
      | Some c \<Rightarrow> (case publish_throws c of Some e \<Rightarrow> Inl e | None \<Rightarrow> Inr ()))"

section \<open>Entities\<close>

datatype VendorStatus = VS_PENDING | VS_ACTIVE | VS_SUSPENDED

record Vendor =
  v_id :: ident
  v_name :: string
  v_status :: VendorStatus
  v_preferredVendor :: bool
  v_internalNotes :: "string option"
  v_totalJobs :: int
  v_completedJobs :: int
  v_cancelledJobs :: int
  v_avgCompletionTime :: "int option"
  v_avgResponseTime :: "int option"
  v_qualityScore :: "number option"
  v_rating :: "number option"

record VendorReview =
  r_id :: ident
  r_vendorId :: ident
  r_workOrderId :: "ident option"
  r_propertyId :: ident
  r_reviewerId :: ident
  r_rating :: number
  r_qualityRating :: "number option"
  r_timelinessRating :: "number option"
  r_communicationRating :: "number option"
  r_professionalismRating :: "number option"
  r_valueRating :: "number option"
  r_review :: "string option"
  r_wouldRecommend :: bool
  r_wouldHireAgain :: bool
  r_photos :: "string list"

datatype WorkOrderStatus =
  WO_PENDING | WO_ASSIGNED | WO_SCHEDULED | WO_IN_PROGRESS | WO_COMPLETED | WO_VERIFIED
  | WO_CANCELLED

record WorkOrder =
  wo_id :: ident
  wo_propertyId :: ident
  wo_damageId :: "ident option"
  wo_vendorId :: "ident option"
  wo_title :: string
  wo_status :: WorkOrderStatus
  wo_assignedAt :: "date option"
  wo_scheduledAt :: "date option"
  wo_startedAt :: "date option"
  wo_completedAt :: "date option"
  wo_actualCost :: "number option"
  wo_laborCost :: "number option"
  wo_materialsCost :: "number option"
  wo_completionNotes :: "string option"
  wo_vendorNotes :: "string option"
  wo_verifiedAt :: "date option"
  wo_verifiedBy :: "string option"
  wo_qualityRating :: "number option"
  wo_vendorRating :: "number option"

datatype DamageType =
  SCRATCH | STAIN | CRACK | BURN | WATER_DAMAGE | HOLE | BROKEN_ITEM | DENT | MOLD | PEST
  | OTHER

datatype Severity = MINOR | MODERATE | MAJOR | CRITICAL

datatype DamageStatus =
  REPORTED | UNDER_REVIEW | DISPUTED | APPROVED | REPAIR_SCHEDULED | REPAIRED | VERIFIED

record BoundingBox =
  bb_x :: number
  bb_y :: number
  bb_width :: number
  bb_height :: number

record Damage =
  d_id :: ident
  d_inspectionId :: ident
  d_propertyId :: ident
  d_room :: string
  d_location :: string
  d_damageType :: DamageType
  d_severity :: Severity
  d_description :: string
  d_status :: DamageStatus
  d_aiDetected :: bool
  d_aiConfidence :: "jsnum option"
  d_aiDamageType :: "string option"
  d_aiSeverity :: "string option"
  d_aiBoundingBox :: "BoundingBox option"
  d_aiMetadata :: "string option"
  d_estimatedCostAi :: "number option"
  d_estimatedCostManual :: "number option"
  d_actualCost :: "number option"
  d_photos :: "string list"

datatype InspectionStatus = IS_SCHEDULED | IS_IN_PROGRESS | IS_COMPLETED

text \<open>
  The enumerations \<open>InspectionType\<close> and \<open>Condition\<close> are declared by the generated
  store client; the services only pass their values on and print them, so a value is the
  text of its name here.
\<close>

type_synonym InspectionType = string
type_synonym Condition = string

record Location =
  latitude :: number
  longitude :: number
  accuracy :: number

record PhotoMetadata =
  ph_url :: string
  ph_timestamp :: date
  ph_gps :: "Location option"
  ph_room :: string
  ph_angle :: "string option"
  ph_device :: "string option"

record Inspection =
  i_id :: ident
  i_propertyId :: ident
  i_inspectorId :: ident
  i_inspectionType :: InspectionType
  i_status :: InspectionStatus
  i_scheduledAt :: date
  i_startedAt :: "date option"
  i_completedAt :: "date option"
  i_photos :: "PhotoMetadata list"
  i_checklist :: "string option"
  i_overallCondition :: "Condition option"
  i_notes :: "string option"
  i_startLocation :: "Location option"
  i_endLocation :: "Location option"
  i_reportUrl :: "string option"
  i_reportGeneratedAt :: "date option"

record store =
  inspections :: "Inspection list"
  damages :: "Damage list"
  workOrders :: "WorkOrder list"
  vendors :: "Vendor list"
  vendorReviews :: "VendorReview list"

section \<open>Vendor service\<close>

text \<open>
  Every service object is built with a publisher of its own,
  \<open>this.rabbitMQ = new RabbitMQUtil()\<close>, and no service calls \<open>connect()\<close> on it.
  The operations below take the publisher as the argument \<open>mq\<close>; the publisher a
  service really holds is \<open>new_RabbitMQUtil\<close>.
\<close>

record ReviewParams =
  p_workOrderId :: "ident option"
  p_propertyId :: ident
  p_reviewerId :: ident
  p_rating :: number
  p_qualityRating :: "number option"
  p_timelinessRating :: "number option"
  p_communicationRating :: "number option"
  p_professionalismRating :: "number option"
  p_valueRating :: "number option"
  p_review :: "string option"
  p_wouldRecommend :: "bool option"
  p_wouldHireAgain :: "bool option"
  p_photos :: "string list option"

definition reviews_of :: "ident \<Rightarrow> store \<Rightarrow> VendorReview list" where
  "reviews_of vendorId s = filter (\<lambda>r. r_vendorId r = vendorId) (vendorReviews s)"

text \<open>
  \<open>recalculateVendorRating\<close>: all reviews of the vendor are read; with none the call
  returns; otherwise the mean rating, and the mean of the quality ratings that are not
  \<open>null\<close> (\<open>undefined\<close>, so not written, when there is none), are written to the vendor.
\<close>

definition recalculateVendorRating :: "ident \<Rightarrow> store \<Rightarrow> (error + unit) \<times> store" where
  "recalculateVendorRating vendorId s =
     (let reviews = reviews_of vendorId s in
      if length reviews = 0 then (Inr (), s)
      else
        let avgRating = foldl (\<lambda>sum r. sum + r_rating r) 0 reviews / of_nat (length reviews);
            qualityReviews = filter (\<lambda>r. r_qualityRating r \<noteq> None) reviews;
            avgQuality =
              (if length qualityReviews > 0
               then Some (foldl (\<lambda>sum r. sum + or_num (r_qualityRating r) 0) 0 qualityReviews
                          / of_nat (length qualityReviews))
               else None)
        in case prisma_update v_id vendorId
                  (\<lambda>v. v\<lparr>v_rating := Some avgRating,
                          v_qualityScore := patch avgQuality (v_qualityScore v)\<rparr>)
                  (vendors s) of
             Inl e \<Rightarrow> (Inl e, s)
           | Inr (v, rows) \<Rightarrow> (Inr (), s\<lparr>vendors := rows\<rparr>))"

text \<open>
  The first statement of \<open>addReview\<close>,
  \<open>if (params.rating < 1 || params.rating > 5) throw new Error(...)\<close>, on the rating as
  the caller passes it: the error thrown, or the rating that goes on to
  \<open>vendorReview.create\<close>.
\<close>

definition checkRating :: "jsnum \<Rightarrow> error + jsnum" where
  "checkRating rating =
     (if js_lt rating (Num 1) \<or> js_gt rating (Num 5)
      then Inl (Error ''Rating must be between 1 and 5'')
      else Inr rating)"

text \<open>
  \<open>addReview\<close>: the rating is validated, the review row is created (\<open>newId\<close> is the key
  the store gives it) and the vendor's rating recomputed. The rows of the store carry
  ratings that are numbers, and the operation is modelled for a rating that is a number;
  what the check does with \<open>NaN\<close> is \<open>checkRating\<close> above.
\<close>

definition addReview :: "ident \<Rightarrow> ident \<Rightarrow> ReviewParams \<Rightarrow> store \<Rightarrow> (error + VendorReview) \<times> store" where
  "addReview newId vendorId params s =
     (case checkRating (Num (p_rating params)) of
        Inl e \<Rightarrow> (Inl e, s)
      | Inr rating \<Rightarrow>
        let review = \<lparr>r_id = newId, r_vendorId = vendorId,
              r_workOrderId = p_workOrderId params, r_propertyId = p_propertyId params,
              r_reviewerId = p_reviewerId params, r_rating = p_rating params,
              r_qualityRating = p_qualityRating params,
              r_timelinessRating = p_timelinessRating params,
              r_communicationRating = p_communicationRating params,
              r_professionalismRating = p_professionalismRating params,
              r_valueRating = p_valueRating params, r_review = p_review params,
              r_wouldRecommend = (case p_wouldRecommend params of None \<Rightarrow> True | Some b \<Rightarrow> b),
              r_wouldHireAgain = (case p_wouldHireAgain params of None \<Rightarrow> True | Some b \<Rightarrow> b),
              r_photos = (case p_photos params of None \<Rightarrow> [] | Some ps \<Rightarrow> ps)\<rparr>;
            s1 = s\<lparr>vendorReviews := vendorReviews s @ [review]\<rparr>
        in case recalculateVendorRating vendorId s1 of
             (Inl e, s2) \<Rightarrow> (Inl e, s2)
           | (Inr u, s2) \<Rightarrow> (Inr review, s2))"




text \<open>
  \<open>deleteVendor\<close>: the vendor's work orders in an open status are counted; any such
  order ends the call with an error; otherwise the row is deleted and the \<open>deleted\<close>
  event published.
\<close>

definition activeWorkOrders :: "ident \<Rightarrow> store \<Rightarrow> nat" where
  "activeWorkOrders vid s =
     length (filter (\<lambda>w. wo_vendorId w = Some vid \<and>
                          wo_status w \<in> {WO_PENDING, WO_ASSIGNED, WO_SCHEDULED, WO_IN_PROGRESS})
               (workOrders s))"

definition deleteVendor :: "RabbitMQUtil \<Rightarrow> ident \<Rightarrow> store \<Rightarrow> (error + unit) \<times> store" where
  "deleteVendor mq vid s =
     (if activeWorkOrders vid s > 0
      then (Inl (Error ''Cannot delete vendor with active work orders''), s)
      else case prisma_delete v_id vid (vendors s) of
             Inl e \<Rightarrow> (Inl e, s)
           | Inr rows \<Rightarrow>
               (let s' = s\<lparr>vendors := rows\<rparr> in
                case publishEvent mq \<lparr>eventType = ''deleted'', entityType = ''vendor'', entityId = vid\<rparr> of
                  Inl e \<Rightarrow> (Inl e, s')
                | Inr u \<Rightarrow> (Inr (), s')))"

section \<open>Work-order service\<close>

text \<open>
  The \<open>data\<close> of \<open>updateWorkOrder\<close>: \<open>UpdateWorkOrderParams\<close> with the fields the
  service adds through \<open>as any\<close> (\<open>assignedAt\<close>, \<open>verifiedAt\<close>, \<open>verifiedBy\<close>).
  \<open>None\<close> is \<open>undefined\<close>.
\<close>

record UpdateWorkOrderParams =
  up_title :: "string option"
  up_status :: "WorkOrderStatus option"
  up_vendorId :: "ident option"
  up_assignedAt :: "date option"
  up_scheduledAt :: "date option"
  up_startedAt :: "date option"
  up_completedAt :: "date option"
  up_actualCost :: "number option"
  up_laborCost :: "number option"
  up_materialsCost :: "number option"
  up_completionNotes :: "string option"
  up_vendorNotes :: "string option"
  up_verifiedAt :: "date option"
  up_verifiedBy :: "string option"
  up_qualityRating :: "number option"
  up_vendorRating :: "number option"

definition no_update :: UpdateWorkOrderParams where
  "no_update = \<lparr>up_title = None, up_status = None, up_vendorId = None, up_assignedAt = None,
     up_scheduledAt = None, up_startedAt = None, up_completedAt = None, up_actualCost = None,
     up_laborCost = None, up_materialsCost = None, up_completionNotes = None,
     up_vendorNotes = None, up_verifiedAt = None, up_verifiedBy = None,
     up_qualityRating = None, up_vendorRating = None\<rparr>"

definition apply_update :: "UpdateWorkOrderParams \<Rightarrow> WorkOrder \<Rightarrow> WorkOrder" where
  "apply_update p w = w\<lparr>
     wo_title := patch1 (up_title p) (wo_title w),
     wo_status := patch1 (up_status p) (wo_status w),
     wo_vendorId := patch (up_vendorId p) (wo_vendorId w),
     wo_assignedAt := patch (up_assignedAt p) (wo_assignedAt w),
     wo_scheduledAt := patch (up_scheduledAt p) (wo_scheduledAt w),
     wo_startedAt := patch (up_startedAt p) (wo_startedAt w),
     wo_completedAt := patch (up_completedAt p) (wo_completedAt w),
     wo_actualCost := patch (up_actualCost p) (wo_actualCost w),
     wo_laborCost := patch (up_laborCost p) (wo_laborCost w),
     wo_materialsCost := patch (up_materialsCost p) (wo_materialsCost w),
     wo_completionNotes := patch (up_completionNotes p) (wo_completionNotes w),
     wo_vendorNotes := patch (up_vendorNotes p) (wo_vendorNotes w),
     wo_verifiedAt := patch (up_verifiedAt p) (wo_verifiedAt w),
     wo_verifiedBy := patch (up_verifiedBy p) (wo_verifiedBy w),
     wo_qualityRating := patch (up_qualityRating p) (wo_qualityRating w),
     wo_vendorRating := patch (up_vendorRating p) (wo_vendorRating w)\<rparr>"

text \<open>
  \<open>updateWorkOrder\<close>: the row is written, then the \<open>updated\<close> event is published and
  awaited; what \<open>publishEvent\<close> throws leaves the call after the write.
\<close>

definition updateWorkOrder ::
  "RabbitMQUtil \<Rightarrow> ident \<Rightarrow> UpdateWorkOrderParams \<Rightarrow> store \<Rightarrow> (error + WorkOrder) \<times> store" where
  "updateWorkOrder mq woId params s =
     (case prisma_update wo_id woId (apply_update params) (workOrders s) of
        Inl e \<Rightarrow> (Inl e, s)
      | Inr (workOrder, rows) \<Rightarrow>
          (let s' = s\<lparr>workOrders := rows\<rparr> in
           case publishEvent mq
                  \<lparr>eventType = ''updated'', entityType = ''work_order'', entityId = wo_id workOrder\<rparr> of
             Inl e \<Rightarrow> (Inl e, s')
           | Inr u \<Rightarrow> (Inr workOrder, s')))"

definition startWorkOrder :: "RabbitMQUtil \<Rightarrow> date \<Rightarrow> ident \<Rightarrow> store \<Rightarrow> (error + WorkOrder) \<times> store" where
  "startWorkOrder mq now woId s =
     updateWorkOrder mq woId (no_update\<lparr>up_status := Some WO_IN_PROGRESS, up_startedAt := Some now\<rparr>) s"

text \<open>
  \<open>updateVendorStats\<close>. \<open>completionTime\<close> is in days and \<open>responseTime\<close> in hours, each
  \<open>undefined\<close> unless both of its dates are set. A sample is merged only when it is truthy
  (\<open>if (completionTime)\<close>); the running-average formula is used only when the vendor's
  stored average is truthy, and the sample itself is taken otherwise.
\<close>

definition completionTime :: "WorkOrder \<Rightarrow> int option" where
  "completionTime workOrder =
     (case (wo_completedAt workOrder, wo_startedAt workOrder) of
        (Some c, Some st) \<Rightarrow> Some (Math_ceil (of_int (c - st) / (1000 * 60 * 60 * 24)))
      | _ \<Rightarrow> None)"

definition responseTime :: "WorkOrder \<Rightarrow> int option" where
  "responseTime workOrder =
     (case (wo_assignedAt workOrder, wo_startedAt workOrder) of
        (Some a, Some st) \<Rightarrow> Some (Math_ceil (of_int (st - a) / (1000 * 60 * 60)))
      | _ \<Rightarrow> None)"

definition newAvg :: "int option \<Rightarrow> int \<Rightarrow> int option \<Rightarrow> int option" where
  "newAvg oldAvg completedJobs sample =
     (case sample of
        None \<Rightarrow> None
      | Some t \<Rightarrow>
          if t = 0 then None
          else Some (Math_round
                 (if truthy_int oldAvg
                  then (of_int (case oldAvg of Some a \<Rightarrow> a | None \<Rightarrow> 0) * of_int completedJobs + of_int t)
                         / (of_int completedJobs + 1)
                  else of_int t)))"

definition updateVendorStats :: "ident \<Rightarrow> WorkOrder \<Rightarrow> store \<Rightarrow> error + store" where
  "updateVendorStats vendorId workOrder s =
     (case findUnique v_id vendorId (vendors s) of
        None \<Rightarrow> Inr s
      | Some vendor \<Rightarrow>
          (let avgC = newAvg (v_avgCompletionTime vendor) (v_completedJobs vendor) (completionTime workOrder);
               avgR = newAvg (v_avgResponseTime vendor) (v_completedJobs vendor) (responseTime workOrder)
           in case prisma_update v_id vendorId
                     (\<lambda>v. v\<lparr>v_totalJobs := v_totalJobs v + 1,
                             v_completedJobs := v_completedJobs v + 1,
                             v_avgCompletionTime := patch avgC (v_avgCompletionTime v),
                             v_avgResponseTime := patch avgR (v_avgResponseTime v)\<rparr>)
                     (vendors s) of
                Inl e \<Rightarrow> Inl e
              | Inr (v, rows) \<Rightarrow> Inr (s\<lparr>vendors := rows\<rparr>)))"

text \<open>
  \<open>updateVendorRating\<close>: the stored rating (0 when there is none) is weighted by
  \<open>totalRatings - 1\<close>, where \<open>totalRatings = vendor.completedJobs || 1\<close>.
\<close>

definition totalRatings :: "Vendor \<Rightarrow> int" where
  "totalRatings vendor = or_int (v_completedJobs vendor) 1"

definition newAvgRating :: "Vendor \<Rightarrow> number \<Rightarrow> number" where
  "newAvgRating vendor newRating =
     ((case v_rating vendor of Some r \<Rightarrow> r | None \<Rightarrow> 0) * (of_int (totalRatings vendor) - 1) + newRating)
       / of_int (totalRatings vendor)"

definition updateVendorRating :: "ident \<Rightarrow> number \<Rightarrow> store \<Rightarrow> error + store" where
  "updateVendorRating vendorId newRating s =
     (case findUnique v_id vendorId (vendors s) of
        None \<Rightarrow> Inr s
      | Some vendor \<Rightarrow>
          (case prisma_update v_id vendorId
                  (\<lambda>v. v\<lparr>v_rating := Some (newAvgRating vendor newRating)\<rparr>) (vendors s) of
             Inl e \<Rightarrow> Inl e
           | Inr (v, rows) \<Rightarrow> Inr (s\<lparr>vendors := rows\<rparr>)))"

record CompleteParams =
  cp_actualCost :: "number option"
  cp_laborCost :: "number option"
  cp_materialsCost :: "number option"
  cp_completionNotes :: "string option"
  cp_vendorNotes :: "string option"

text \<open>
  \<open>completeWorkOrder\<close>: the work order is updated through \<open>updateWorkOrder\<close>; then a
  linked damage is set to \<open>REPAIRED\<close> with \<open>actualCost: params.actualCost\<close>; then the
  vendor's statistics are updated. The completion notification that follows swallows
  its own failures and changes nothing in the store.
\<close>

definition completeWorkOrder ::
  "RabbitMQUtil \<Rightarrow> date \<Rightarrow> ident \<Rightarrow> CompleteParams \<Rightarrow> store \<Rightarrow> (error + WorkOrder) \<times> store" where
  "completeWorkOrder mq now woId params s =
     (case updateWorkOrder mq woId
             (no_update\<lparr>up_status := Some WO_COMPLETED, up_completedAt := Some now,
                up_actualCost := cp_actualCost params, up_laborCost := cp_laborCost params,
                up_materialsCost := cp_materialsCost params,
                up_completionNotes := cp_completionNotes params,
                up_vendorNotes := cp_vendorNotes params\<rparr>) s of
        (Inl e, s1) \<Rightarrow> (Inl e, s1)
      | (Inr workOrder, s1) \<Rightarrow>
          (case (case wo_damageId workOrder of
                   None \<Rightarrow> Inr s1
                 | Some damageId \<Rightarrow>
                     if damageId = [] then Inr s1
                     else (case prisma_update d_id damageId
                                  (\<lambda>d. d\<lparr>d_status := REPAIRED,
                                          d_actualCost := patch (cp_actualCost params) (d_actualCost d)\<rparr>)
                                  (damages s1) of
                             Inl e \<Rightarrow> Inl e
                           | Inr (d, rows) \<Rightarrow> Inr (s1\<lparr>damages := rows\<rparr>))) of
             Inl e \<Rightarrow> (Inl e, s1)
           | Inr s2 \<Rightarrow>
               (case (case wo_vendorId workOrder of
                        None \<Rightarrow> Inr s2
                      | Some vendorId \<Rightarrow>
                          if vendorId = [] then Inr s2 else updateVendorStats vendorId workOrder s2) of
                  Inl e \<Rightarrow> (Inl e, s2)
                | Inr s3 \<Rightarrow> (Inr workOrder, s3))))"

record VerifyParams =
  vp_verifiedBy :: string
  vp_qualityRating :: number
  vp_vendorRating :: number

definition verifyWorkOrder ::
  "RabbitMQUtil \<Rightarrow> date \<Rightarrow> ident \<Rightarrow> VerifyParams \<Rightarrow> store \<Rightarrow> (error + WorkOrder) \<times> store" where
  "verifyWorkOrder mq now woId params s =
     (case updateWorkOrder mq woId
             (no_update\<lparr>up_status := Some WO_VERIFIED, up_verifiedAt := Some now,
                up_verifiedBy := Some (vp_verifiedBy params),
                up_qualityRating := Some (vp_qualityRating params),
                up_vendorRating := Some (vp_vendorRating params)\<rparr>) s of
        (Inl e, s1) \<Rightarrow> (Inl e, s1)
      | (Inr workOrder, s1) \<Rightarrow>
          (case (case wo_damageId workOrder of
                   None \<Rightarrow> Inr s1
                 | Some damageId \<Rightarrow>
                     if damageId = [] then Inr s1
                     else (case prisma_update d_id damageId (\<lambda>d. d\<lparr>d_status := VERIFIED\<rparr>)
                                  (damages s1) of
                             Inl e \<Rightarrow> Inl e
                           | Inr (d, rows) \<Rightarrow> Inr (s1\<lparr>damages := rows\<rparr>))) of
             Inl e \<Rightarrow> (Inl e, s1)
           | Inr s2 \<Rightarrow>
               (case (case wo_vendorId workOrder of
                        None \<Rightarrow> Inr s2
                      | Some vendorId \<Rightarrow>
                          if vendorId = [] then Inr s2
                          else updateVendorRating vendorId (vp_vendorRating params) s2) of
                  Inl e \<Rightarrow> (Inl e, s2)
                | Inr s3 \<Rightarrow> (Inr workOrder, s3))))"


section \<open>Vision client (cv-integration.service.ts)\<close>

text \<open>
  A detection as the vision service sends it. The response is taken as it arrives, so the
  confidence may be left out (\<open>None\<close>) or be any \<open>jsnum\<close>.
\<close>

record Detection =
  det_type :: string
  det_confidence :: "jsnum option"
  det_boundingBox :: BoundingBox
  det_severity :: string

record CVDetectionResponse =
  resp_success :: bool
  resp_detections :: "Detection list option"
  resp_metadata :: "string option"

record AIDetectionResult =
  ai_detected :: bool
  ai_confidence :: "jsnum option"
  ai_damageType :: "string option"
  ai_severity :: "string option"
  ai_boundingBox :: "BoundingBox option"
  ai_metadata :: "string option"

definition error_message :: "error \<Rightarrow> string" where
  "error_message e = (case e of Error m \<Rightarrow> m | RecordNotFound \<Rightarrow> ''Unknown error'')"

text \<open>
  \<open>detectDamage\<close>, given what the request to the vision service came to: a thrown error
  or the response body. Without success or without detections nothing is detected; a
  thrown error is caught and reported as nothing detected; otherwise the detection of
  highest confidence (the first of them on a tie) is reported.
\<close>

definition detectDamage :: "error + CVDetectionResponse \<Rightarrow> AIDetectionResult" where
  "detectDamage http =
     (case http of
        Inl e \<Rightarrow>
          \<lparr>ai_detected = False, ai_confidence = Some (Num 0), ai_damageType = None,
           ai_severity = None, ai_boundingBox = None, ai_metadata = Some (error_message e)\<rparr>
      | Inr data \<Rightarrow>
          (case (if resp_success data then resp_detections data else None) of
             None \<Rightarrow>
               \<lparr>ai_detected = False, ai_confidence = Some (Num 0), ai_damageType = None,
                ai_severity = None, ai_boundingBox = None, ai_metadata = None\<rparr>
           | Some [] \<Rightarrow>
               \<lparr>ai_detected = False, ai_confidence = Some (Num 0), ai_damageType = None,
                ai_severity = None, ai_boundingBox = None, ai_metadata = None\<rparr>
           | Some (d # rest) \<Rightarrow>
               (let bestDetection =
                      foldl (\<lambda>prev current.
                               if js_gt (to_number (det_confidence current))
                                        (to_number (det_confidence prev))
                               then current else prev)
                        d rest
                in \<lparr>ai_detected = True, ai_confidence = det_confidence bestDetection,
                    ai_damageType = Some (det_type bestDetection),
                    ai_severity = Some (det_severity bestDetection),
                    ai_boundingBox = Some (det_boundingBox bestDetection),
                    ai_metadata = resp_metadata data\<rparr>)))"


record CostResponse =
  cost_estimatedCost :: "number option"
  cost_confidence :: "number option"

record CostEstimate =
  estimatedCost :: "number member"
  est_confidence :: number

definition baseEstimates :: "(string \<times> number) list" where
  "baseEstimates = [(''MINOR'', 100), (''MODERATE'', 500), (''MAJOR'', 2000), (''CRITICAL'', 5000)]"

text \<open>
  \<open>estimateRepairCost\<close>: the cost the service answers, \<open>0\<close> for none; when the request
  throws, \<open>baseEstimates[severity] || 500\<close>, which is the table's number, an inherited
  member when the severity is the name of one, and 500 otherwise.
\<close>

definition estimateRepairCost :: "error + CostResponse \<Rightarrow> string \<Rightarrow> CostEstimate" where
  "estimateRepairCost http severity =
     (case http of
        Inr data \<Rightarrow>
          \<lparr>estimatedCost = Own (or_num (cost_estimatedCost data) 0),
           est_confidence = or_num (cost_confidence data) 0\<rparr>
      | Inl e \<Rightarrow>
          \<lparr>estimatedCost =
             (case property baseEstimates severity of
                Some (Own v) \<Rightarrow> Own (if v = 0 then 500 else v)
              | Some (Inherited k) \<Rightarrow> Inherited k
              | None \<Rightarrow> Own 500),
           est_confidence = 3 / 10\<rparr>)"

section \<open>Damage service\<close>

text \<open>\<open>toLowerCase\<close> on the letters A to Z (a string is its bytes here).\<close>

definition toLowerCase :: "string \<Rightarrow> string" where
  "toLowerCase str =
     map (\<lambda>c. if (65::nat) \<le> of_char c \<and> of_char c \<le> (90::nat)
               then char_of (of_char c + (32::nat)) else c) str"

text \<open>\<open>x || d\<close> on a nullable string.\<close>

definition or_str :: "string option \<Rightarrow> string \<Rightarrow> string" where
  "or_str x d = (case x of None \<Rightarrow> d | Some v \<Rightarrow> if v = [] then d else v)"

text \<open>
  \<open>mapAIDamageType\<close> and \<open>mapAISeverity\<close>: \<open>mapping[label.toLowerCase()] || fallback\<close>.
  A label the table has gives its value, a label that names an inherited member
  (\<open>constructor\<close>, \<open>__proto__\<close>) gives that member, every other label the fallback.
\<close>

definition mapAIDamageType :: "string \<Rightarrow> DamageType member" where
  "mapAIDamageType aiType =
     (case property
             [(''stain'', STAIN), (''hole'', HOLE), (''crack'', CRACK), (''burn'', BURN),
              (''water_damage'', WATER_DAMAGE), (''water'', WATER_DAMAGE),
              (''broken'', BROKEN_ITEM), (''scratch'', SCRATCH), (''dent'', DENT),
              (''mold'', MOLD), (''pest'', PEST)]
             (toLowerCase aiType) of
        Some m \<Rightarrow> m
      | None \<Rightarrow> Own OTHER)"

definition mapAISeverity :: "string \<Rightarrow> Severity member" where
  "mapAISeverity aiSeverity =
     (case property
             [(''minor'', MINOR), (''moderate'', MODERATE), (''major'', MAJOR),
              (''critical'', CRITICAL), (''severe'', CRITICAL)]
             (toLowerCase aiSeverity) of
        Some m \<Rightarrow> m
      | None \<Rightarrow> Own MODERATE)"

text \<open>
  The configuration: \<open>confidenceThreshold\<close> is
  \<open>parseFloat(process.env.AI_CONFIDENCE_THRESHOLD || '0.75')\<close>, which is \<open>NaN\<close> when the
  variable holds a text that does not start with a number.
\<close>

record AiConfig =
  confidenceThreshold :: jsnum
  minDamageSizePixels :: int

record DetectParams =
  dp_inspectionId :: ident
  dp_propertyId :: ident
  dp_room :: string
  dp_location :: string

text \<open>
  Modelled from the spec: the schema of the store is not among the sources. The type and
  the severity of a damage are always of their enumerations and a cost is a number, so
  \<open>damage.create\<close> stores the row when the type, the severity and the cost it is handed
  are such values, and refuses it with an error, writing nothing, when one of them is an
  inherited member.
\<close>

definition damage_create ::
  "DamageType member \<Rightarrow> Severity member \<Rightarrow> number member \<Rightarrow>
   (DamageType \<Rightarrow> Severity \<Rightarrow> number \<Rightarrow> Damage) \<Rightarrow> store \<Rightarrow> error + Damage \<times> store" where
  "damage_create damageType severity estimatedCostAi row s =
     (case damageType of
        Inherited k \<Rightarrow> Inl (Error ''Invalid value for argument damageType'')
      | Own t \<Rightarrow>
          (case severity of
             Inherited k \<Rightarrow> Inl (Error ''Invalid value for argument severity'')
           | Own v \<Rightarrow>
               (case estimatedCostAi of
                  Inherited k \<Rightarrow> Inl (Error ''Invalid value for argument estimatedCostAi'')
                | Own c \<Rightarrow> Inr (row t v c, s\<lparr>damages := damages s @ [row t v c]\<rparr>))))"

text \<open>
  What the collaborators of one \<open>detectDamageFromImage\<close> call come to: the upload (the
  stored URL, or the error \<open>uploadImage\<close> throws), the two requests to the vision service,
  and the key the store gives a created row.
\<close>

record DetectIO =
  io_upload :: "error + string"
  io_detect :: "error + CVDetectionResponse"
  io_cost :: "error + CostResponse"
  io_newId :: ident

text \<open>
  \<open>detectDamageFromImage\<close>: upload, detection, the gate
  \<open>!aiResult.detected || aiResult.confidence < config.ai.confidenceThreshold\<close>, the cost
  estimate, the created row, then the pattern sent to the knowledge store (its failure is
  caught there) and the \<open>ai_detected\<close> event, published and awaited. The argument
  \<open>percent\<close> is the runtime's \<open>(confidence * 100).toFixed(1)\<close>, the text of the
  percentage that goes into the description.
\<close>

definition detectDamageFromImage ::
  "AiConfig \<Rightarrow> RabbitMQUtil \<Rightarrow> (jsnum \<Rightarrow> string) \<Rightarrow> DetectIO \<Rightarrow> DetectParams \<Rightarrow> store
     \<Rightarrow> (error + Damage option) \<times> store" where
  "detectDamageFromImage cfg mq percent io params s =
     (case io_upload io of
        Inl e \<Rightarrow> (Inl e, s)
      | Inr url \<Rightarrow>
          (let aiResult = detectDamage (io_detect io) in
           if \<not> ai_detected aiResult \<or>
              js_lt (to_number (ai_confidence aiResult)) (confidenceThreshold cfg)
           then (Inr None, s)
           else
             (let costEstimate = estimateRepairCost (io_cost io) (or_str (ai_severity aiResult) ''MODERATE'')
              in case damage_create
                        (mapAIDamageType (or_str (ai_damageType aiResult) ''OTHER''))
                        (mapAISeverity (or_str (ai_severity aiResult) ''MODERATE''))
                        (estimatedCost costEstimate)
                        (\<lambda>damageType severity cost.
                           \<lparr>d_id = io_newId io,
                            d_inspectionId = dp_inspectionId params,
                            d_propertyId = dp_propertyId params,
                            d_room = dp_room params,
                            d_location = dp_location params,
                            d_damageType = damageType,
                            d_severity = severity,
                            d_description = ''AI-detected ''
                              @ (case ai_damageType aiResult of None \<Rightarrow> ''undefined'' | Some t \<Rightarrow> t)
                              @ '' damage with '' @ percent (to_number (ai_confidence aiResult))
                              @ ''% confidence'',
                            d_status = UNDER_REVIEW,
                            d_aiDetected = True,
                            d_aiConfidence = ai_confidence aiResult,
                            d_aiDamageType = ai_damageType aiResult,
                            d_aiSeverity = ai_severity aiResult,
                            d_aiBoundingBox = ai_boundingBox aiResult,
                            d_aiMetadata = ai_metadata aiResult,
                            d_estimatedCostAi = Some cost,
                            d_estimatedCostManual = None,
                            d_actualCost = None,
                            d_photos = [url]\<rparr>)
                        s of
                   Inl e \<Rightarrow> (Inl e, s)
                 | Inr (damage, s') \<Rightarrow>
                     (case publishEvent mq
                             \<lparr>eventType = ''ai_detected'', entityType = ''damage'',
                              entityId = d_id damage\<rparr> of
                        Inl e \<Rightarrow> (Inl e, s')
                      | Inr u \<Rightarrow> (Inr (Some damage), s')))))"





section \<open>Inspection service\<close>

record CreateInspectionParams =
  ci_propertyId :: ident
  ci_inspectorId :: ident
  ci_inspectionType :: InspectionType
  ci_scheduledAt :: date
  ci_notes :: "string option"

record UpdateInspectionParams =
  ui_status :: "InspectionStatus option"
  ui_startedAt :: "date option"
  ui_completedAt :: "date option"
  ui_photos :: "PhotoMetadata list option"
  ui_checklist :: "string option"
  ui_overallCondition :: "Condition option"
  ui_notes :: "string option"
  ui_startLocation :: "Location option"
  ui_endLocation :: "Location option"

definition no_inspection_update :: UpdateInspectionParams where
  "no_inspection_update = \<lparr>ui_status = None, ui_startedAt = None, ui_completedAt = None,
     ui_photos = None, ui_checklist = None, ui_overallCondition = None, ui_notes = None,
     ui_startLocation = None, ui_endLocation = None\<rparr>"

text \<open>\<open>createInspection\<close>: the row is created as \<open>SCHEDULED\<close>, then the event published.\<close>

definition createInspection ::
  "RabbitMQUtil \<Rightarrow> ident \<Rightarrow> CreateInspectionParams \<Rightarrow> store \<Rightarrow> (error + Inspection) \<times> store" where
  "createInspection mq newId params s =
     (let inspection = \<lparr>i_id = newId, i_propertyId = ci_propertyId params,
            i_inspectorId = ci_inspectorId params,
            i_inspectionType = ci_inspectionType params, i_status = IS_SCHEDULED,
            i_scheduledAt = ci_scheduledAt params, i_startedAt = None, i_completedAt = None,
            i_photos = [], i_checklist = None, i_overallCondition = None,
            i_notes = ci_notes params, i_startLocation = None, i_endLocation = None,
            i_reportUrl = None, i_reportGeneratedAt = None\<rparr>;
          s' = s\<lparr>inspections := inspections s @ [inspection]\<rparr>
      in case publishEvent mq
                \<lparr>eventType = ''created'', entityType = ''inspection'', entityId = i_id inspection\<rparr> of
           Inl e \<Rightarrow> (Inl e, s')
         | Inr u \<Rightarrow> (Inr inspection, s'))"

text \<open>
  \<open>updateInspection\<close>: the \<open>data\<close> holds exactly the fields of \<open>params\<close> that are defined;
  no field is checked against another or against the stored row.
\<close>

definition apply_inspection_update :: "UpdateInspectionParams \<Rightarrow> Inspection \<Rightarrow> Inspection" where
  "apply_inspection_update p i = i\<lparr>
     i_status := patch1 (ui_status p) (i_status i),
     i_startedAt := patch (ui_startedAt p) (i_startedAt i),
     i_completedAt := patch (ui_completedAt p) (i_completedAt i),
     i_photos := patch1 (ui_photos p) (i_photos i),
     i_checklist := patch (ui_checklist p) (i_checklist i),
     i_overallCondition := patch (ui_overallCondition p) (i_overallCondition i),
     i_notes := patch (ui_notes p) (i_notes i),
     i_startLocation := patch (ui_startLocation p) (i_startLocation i),
     i_endLocation := patch (ui_endLocation p) (i_endLocation i)\<rparr>"

definition updateInspection ::
  "RabbitMQUtil \<Rightarrow> ident \<Rightarrow> UpdateInspectionParams \<Rightarrow> store \<Rightarrow> (error + Inspection) \<times> store" where
  "updateInspection mq inspId params s =
     (case prisma_update i_id inspId (apply_inspection_update params) (inspections s) of
        Inl e \<Rightarrow> (Inl e, s)
      | Inr (inspection, rows) \<Rightarrow>
          (let s' = s\<lparr>inspections := rows\<rparr> in
           case publishEvent mq
                  \<lparr>eventType = ''updated'', entityType = ''inspection'', entityId = i_id inspection\<rparr> of
             Inl e \<Rightarrow> (Inl e, s')
           | Inr u \<Rightarrow> (Inr inspection, s')))"

definition startInspection ::
  "RabbitMQUtil \<Rightarrow> date \<Rightarrow> ident \<Rightarrow> Location option \<Rightarrow> store \<Rightarrow> (error + Inspection) \<times> store" where
  "startInspection mq now inspId location s =
     updateInspection mq inspId
       (no_inspection_update\<lparr>ui_status := Some IS_IN_PROGRESS, ui_startedAt := Some now,
          ui_startLocation := location\<rparr>) s"

record CompleteInspectionParams =
  co_overallCondition :: Condition
  co_notes :: "string option"
  co_location :: "Location option"

definition completeInspection ::
  "RabbitMQUtil \<Rightarrow> date \<Rightarrow> ident \<Rightarrow> CompleteInspectionParams \<Rightarrow> store \<Rightarrow> (error + Inspection) \<times> store" where
  "completeInspection mq now inspId params s =
     updateInspection mq inspId
       (no_inspection_update\<lparr>ui_status := Some IS_COMPLETED, ui_completedAt := Some now,
          ui_overallCondition := Some (co_overallCondition params), ui_notes := co_notes params,
          ui_endLocation := co_location params\<rparr>) s"

record PhotoParams =
  pp_room :: string
  pp_angle :: "string option"
  pp_gps :: "Location option"
  pp_device :: "string option"

text \<open>
  \<open>addPhoto\<close>: the image is uploaded first (\<open>upload\<close> is what the upload comes to), then
  the inspection is read, the photo appended to its photos and the list written back.
\<close>

definition addPhoto ::
  "RabbitMQUtil \<Rightarrow> date \<Rightarrow> ident \<Rightarrow> error + string \<Rightarrow> PhotoParams \<Rightarrow> store \<Rightarrow> (error + Inspection) \<times> store" where
  "addPhoto mq now inspId upload metadata s =
     (case upload of
        Inl e \<Rightarrow> (Inl e, s)
      | Inr url \<Rightarrow>
          (case findUnique i_id inspId (inspections s) of
             None \<Rightarrow> (Inl (Error (''Inspection '' @ inspId @ '' not found'')), s)
           | Some inspection \<Rightarrow>
               (let newPhoto = \<lparr>ph_url = url, ph_timestamp = now, ph_gps = pp_gps metadata,
                      ph_room = pp_room metadata, ph_angle = pp_angle metadata,
                      ph_device = pp_device metadata\<rparr>
                in updateInspection mq inspId
                     (no_inspection_update\<lparr>ui_photos := Some (i_photos inspection @ [newPhoto])\<rparr>) s)))"

subsection \<open>The report\<close>

text \<open>
  The document is the number of its pages and the texts drawn, each on a page (0 is the
  first) at a position. \<open>generateReport\<close> adds one page, \<open>page\<close>, and draws every text with
  \<open>page.drawText\<close>; in the loop over the damages it adds a page when the position falls
  below 100 and puts the position back to the top, and goes on drawing on \<open>page\<close>.
\<close>

record DrawOp =
  dr_page :: nat
  dr_text :: string
  dr_x :: int
  dr_y :: int
  dr_size :: nat
  dr_bold :: bool

record Pdf =
  pdf_pages :: nat
  pdf_draws :: "DrawOp list"

definition DamageType_text :: "DamageType \<Rightarrow> string" where
  "DamageType_text t =
     (case t of SCRATCH \<Rightarrow> ''SCRATCH'' | STAIN \<Rightarrow> ''STAIN'' | CRACK \<Rightarrow> ''CRACK'' | BURN \<Rightarrow> ''BURN''
      | WATER_DAMAGE \<Rightarrow> ''WATER_DAMAGE'' | HOLE \<Rightarrow> ''HOLE'' | BROKEN_ITEM \<Rightarrow> ''BROKEN_ITEM''
      | DENT \<Rightarrow> ''DENT'' | MOLD \<Rightarrow> ''MOLD'' | PEST \<Rightarrow> ''PEST'' | OTHER \<Rightarrow> ''OTHER'')"

definition Severity_text :: "Severity \<Rightarrow> string" where
  "Severity_text v =
     (case v of MINOR \<Rightarrow> ''MINOR'' | MODERATE \<Rightarrow> ''MODERATE'' | MAJOR \<Rightarrow> ''MAJOR''
      | CRITICAL \<Rightarrow> ''CRITICAL'')"

definition InspectionStatus_text :: "InspectionStatus \<Rightarrow> string" where
  "InspectionStatus_text v =
     (case v of IS_SCHEDULED \<Rightarrow> ''SCHEDULED'' | IS_IN_PROGRESS \<Rightarrow> ''IN_PROGRESS''
      | IS_COMPLETED \<Rightarrow> ''COMPLETED'')"

text \<open>
  \<open>wrapText\<close>: the text is split at single spaces; a word that would make the line longer
  than \<open>maxLength\<close> starts a new line. \<open>trim\<close> removes the white space at both ends.
\<close>

fun split_space :: "string \<Rightarrow> string list" where
  "split_space [] = [[]]"
| "split_space (c # cs) =
     (if c = CHR '' '' then [] # split_space cs
      else (case split_space cs of [] \<Rightarrow> [[c]] | w # ws \<Rightarrow> (c # w) # ws))"

definition is_space :: "char \<Rightarrow> bool" where
  "is_space c = (c = CHR '' '' \<or> of_char c \<in> {9, 10, 11, 12, 13 :: nat})"

definition trim :: "string \<Rightarrow> string" where
  "trim str = rev (dropWhile is_space (rev (dropWhile is_space str)))"

definition wrapText :: "string \<Rightarrow> nat \<Rightarrow> string list" where
  "wrapText text maxLength =
     (let (lines, currentLine) =
            foldl (\<lambda>(lines, currentLine) word.
                     if length (currentLine @ word) > maxLength
                     then (lines @ [trim currentLine], word @ '' '')
                     else (lines, currentLine @ word @ '' ''))
              ([], []) (split_space text)
      in if trim currentLine \<noteq> [] then lines @ [trim currentLine] else lines)"

definition drawText :: "string \<Rightarrow> int \<Rightarrow> int \<Rightarrow> nat \<Rightarrow> bool \<Rightarrow> DrawOp" where
  "drawText txt x y fontSize bold =
     \<lparr>dr_page = 0, dr_text = txt, dr_x = x, dr_y = y, dr_size = fontSize, dr_bold = bold\<rparr>"

fun details_loop :: "string list \<Rightarrow> int \<times> DrawOp list \<Rightarrow> int \<times> DrawOp list" where
  "details_loop [] st = st"
| "details_loop (detail # rest) (yPosition, draws) =
     details_loop rest (yPosition - 20, draws @ [drawText detail 50 yPosition 12 False])"

fun damages_loop :: "Damage list \<Rightarrow> int \<times> nat \<times> DrawOp list \<Rightarrow> int \<times> nat \<times> DrawOp list" where
  "damages_loop [] st = st"
| "damages_loop (damage # rest) (yPosition, pages, draws) =
     (let damageText = [CHR 0xE2, CHR 0x80, CHR 0xA2] @ '' '' @ DamageType_text (d_damageType damage)
                         @ '' - '' @ Severity_text (d_severity damage)
                         @ '' ('' @ d_room damage @ '')'';
          draws' = draws @ [drawText damageText 70 yPosition 11 False];
          yPosition' = yPosition - 20
      in if yPosition' < 100
         then damages_loop rest (792 - 50, pages + 1, draws')
         else damages_loop rest (yPosition', pages, draws'))"

fun notes_loop :: "string list \<Rightarrow> int \<times> DrawOp list \<Rightarrow> int \<times> DrawOp list" where
  "notes_loop [] st = st"
| "notes_loop (line # rest) (yPosition, draws) =
     notes_loop rest (yPosition - 15, draws @ [drawText line 50 yPosition 11 False])"

definition render_report :: "(date \<Rightarrow> string) \<Rightarrow> Inspection \<Rightarrow> Damage list \<Rightarrow> Pdf" where
  "render_report toLocaleDateString inspection inspection_damages =
     (let height = 792;
          yTitle = height - 50;
          title = [drawText ''Property Inspection Report'' 50 yTitle 24 True];
          details =
            [''Inspection ID: '' @ i_id inspection,
             ''Property ID: '' @ i_propertyId inspection,
             ''Type: '' @ i_inspectionType inspection,
             ''Status: '' @ InspectionStatus_text (i_status inspection),
             ''Scheduled: '' @ toLocaleDateString (i_scheduledAt inspection),
             ''Completed: '' @ or_str (map_option toLocaleDateString (i_completedAt inspection)) ''N/A'',
             ''Overall Condition: '' @ or_str (i_overallCondition inspection) ''N/A''];
          (yDetails, draws1) = details_loop details (yTitle - 40, title);
          ySection = yDetails - 20;
          (yDamages, pages, draws2) =
            (if length inspection_damages > 0
             then damages_loop inspection_damages
                    (ySection - 30, 1, draws1 @ [drawText ''Damages Found:'' 50 ySection 16 True])
             else (ySection, 1, draws1));
          draws3 =
            (if truthy_str (i_notes inspection)
             then snd (notes_loop (wrapText (or_str (i_notes inspection) []) 80)
                         (yDamages - 20 - 25,
                          draws2 @ [drawText ''Notes:'' 50 (yDamages - 20) 14 True]))
             else draws2)
      in \<lparr>pdf_pages = pages, pdf_draws = draws3\<rparr>)"

text \<open>
  \<open>generateReport\<close>: the inspection is read with its damages, the document rendered and
  uploaded (\<open>uploadFile\<close> is what the upload of a document comes to), and the URL and the
  time written to the inspection. No event is published.
\<close>

definition generateReport ::
  "(date \<Rightarrow> string) \<Rightarrow> (Pdf \<Rightarrow> error + string) \<Rightarrow> date \<Rightarrow> ident \<Rightarrow> store \<Rightarrow> (error + string) \<times> store" where
  "generateReport toLocaleDateString uploadFile now inspId s =
     (case findUnique i_id inspId (inspections s) of
        None \<Rightarrow> (Inl (Error (''Inspection '' @ inspId @ '' not found'')), s)
      | Some inspection \<Rightarrow>
          (let pdf = render_report toLocaleDateString inspection
                       (filter (\<lambda>d. d_inspectionId d = inspId) (damages s))
           in case uploadFile pdf of
                Inl e \<Rightarrow> (Inl e, s)
              | Inr url \<Rightarrow>
                  (case prisma_update i_id inspId
                          (\<lambda>i. i\<lparr>i_reportUrl := Some url, i_reportGeneratedAt := Some now\<rparr>)
                          (inspections s) of
                     Inl e \<Rightarrow> (Inl e, s)
                   | Inr (i, rows) \<Rightarrow> (Inr url, s\<lparr>inspections := rows\<rparr>))))"

text \<open>
  The operations of the inspection service that the invariant is about, each with its
  arguments and with what its collaborators come to; \<open>run_op\<close> is the store after one.
\<close>

datatype InspectionOp =
    Create ident CreateInspectionParams
  | Update ident UpdateInspectionParams
  | Start date ident "Location option"
  | Complete date ident CompleteInspectionParams
  | AddPhoto date ident "error + string" PhotoParams
  | GenerateReport date ident "error + string"

fun run_op :: "RabbitMQUtil \<Rightarrow> InspectionOp \<Rightarrow> store \<Rightarrow> store" where
  "run_op mq (Create newId params) s = snd (createInspection mq newId params s)"
| "run_op mq (Update inspId params) s = snd (updateInspection mq inspId params s)"
| "run_op mq (Start now inspId location) s = snd (startInspection mq now inspId location s)"
| "run_op mq (Complete now inspId params) s = snd (completeInspection mq now inspId params s)"
| "run_op mq (AddPhoto now inspId upload metadata) s = snd (addPhoto mq now inspId upload metadata s)"
| "run_op mq (GenerateReport now inspId upload) s =
     snd (generateReport (\<lambda>d. ''date'') (\<lambda>pdf. upload) now inspId s)"

text \<open>The invariant: an inspection with \<open>completedAt\<close> set has status \<open>COMPLETED\<close>.\<close>

definition completed_invariant :: "store \<Rightarrow> bool" where
  "completed_invariant s =
     list_all (\<lambda>i. i_completedAt i = None \<or> i_status i = IS_COMPLETED) (inspections s)"

text \<open>
  The operations that keep it: every one but \<open>startInspection\<close> of an inspection that has
  \<open>completedAt\<close> set, and \<open>updateInspection\<close> with a patch other than one that sets the
  status \<open>COMPLETED\<close> or leaves both status and \<open>completedAt\<close> alone.
\<close>

fun keeps_invariant :: "store \<Rightarrow> InspectionOp \<Rightarrow> bool" where
  "keeps_invariant s (Update inspId params) =
     (ui_status params = Some IS_COMPLETED \<or> (ui_status params = None \<and> ui_completedAt params = None))"
| "keeps_invariant s (Start now inspId location) =
     list_all (\<lambda>i. i_id i \<noteq> inspId \<or> i_completedAt i = None) (inspections s)"
| "keeps_invariant s other = True"

section \<open>Concrete states\<close>

definition vendor1 :: Vendor where
  "vendor1 = \<lparr>v_id = ''v1'', v_name = ''Ace Repairs'', v_status = VS_ACTIVE,
     v_preferredVendor = False, v_internalNotes = None, v_totalJobs = 0, v_completedJobs = 0,
     v_cancelledJobs = 0, v_avgCompletionTime = None, v_avgResponseTime = None,
     v_qualityScore = None, v_rating = None\<rparr>"

definition store1 :: store where
  "store1 = \<lparr>inspections = [], damages = [], workOrders = [], vendors = [vendor1],
     vendorReviews = []\<rparr>"


text \<open>
  A work order of vendor \<open>v1\<close> with the given dates, and the store whose vendor has a
  given number of completed jobs and a given stored average completion time.
\<close>

definition order1 :: "date option \<Rightarrow> date option \<Rightarrow> date option \<Rightarrow> WorkOrder" where
  "order1 assigned started completed = \<lparr>wo_id = ''w1'', wo_propertyId = ''p1'',
     wo_damageId = None, wo_vendorId = Some ''v1'', wo_title = ''Fix door'',
     wo_status = WO_COMPLETED, wo_assignedAt = assigned, wo_scheduledAt = None,
     wo_startedAt = started, wo_completedAt = completed, wo_actualCost = None,
     wo_laborCost = None, wo_materialsCost = None, wo_completionNotes = None,
     wo_vendorNotes = None, wo_verifiedAt = None, wo_verifiedBy = None,
     wo_qualityRating = None, wo_vendorRating = None\<rparr>"

definition store_jobs :: "int \<Rightarrow> int option \<Rightarrow> store" where
  "store_jobs n avg = store1\<lparr>vendors :=
     [vendor1\<lparr>v_totalJobs := n, v_completedJobs := n, v_avgCompletionTime := avg\<rparr>]\<rparr>"

text \<open>
  The running average in the specification's words:
  \<open>(oldAvg \<times> completedJobsBeforeIncrement + newSample) / (completedJobsBeforeIncrement + 1)\<close>,
  rounded to the nearest integer; a vendor without a stored average enters with 0, as the
  arithmetic of the runtime reads \<open>null\<close>.
\<close>

definition spec_newAvg :: "int option \<Rightarrow> int \<Rightarrow> int \<Rightarrow> int" where
  "spec_newAvg oldAvg n sample =
     round ((real_of_int (case oldAvg of None \<Rightarrow> 0 | Some a \<Rightarrow> a) * real_of_int n + real_of_int sample)
            / (real_of_int n + 1))"


text \<open>
  The rating update in the specification's words:
  \<open>(oldRating \<times> (completedJobs - 1) + vendorRating) / completedJobs\<close>.
\<close>

definition spec_newRating :: "number \<Rightarrow> int \<Rightarrow> number \<Rightarrow> number" where
  "spec_newRating oldRating completedJobs vendorRating =
     (oldRating * (real_of_int completedJobs - 1) + vendorRating) / real_of_int completedJobs"

text \<open>
  A publisher whose channel is open and accepts every message; a damage waiting for its
  repair; a work order of vendor \<open>v1\<close> for that damage, with a given earlier
  \<open>actualCost\<close>; the store that holds them.
\<close>

definition connected :: RabbitMQUtil where
  "connected = \<lparr>channel = Some (Channel None)\<rparr>"

definition damage1 :: Damage where
  "damage1 = \<lparr>d_id = ''d1'', d_inspectionId = ''i1'', d_propertyId = ''p1'',
     d_room = ''Kitchen'', d_location = ''North wall'', d_damageType = HOLE,
     d_severity = MAJOR, d_description = ''Hole in the wall'', d_status = REPAIR_SCHEDULED,
     d_aiDetected = False, d_aiConfidence = None, d_aiDamageType = None, d_aiSeverity = None,
     d_aiBoundingBox = None, d_aiMetadata = None, d_estimatedCostAi = None,
     d_estimatedCostManual = Some 200, d_actualCost = None, d_photos = []\<rparr>"

definition order2 :: "number option \<Rightarrow> WorkOrder" where
  "order2 cost = \<lparr>wo_id = ''w2'', wo_propertyId = ''p1'', wo_damageId = Some ''d1'',
     wo_vendorId = Some ''v1'', wo_title = ''Repair wall'', wo_status = WO_IN_PROGRESS,
     wo_assignedAt = Some 0, wo_scheduledAt = None, wo_startedAt = Some 3600000,
     wo_completedAt = None, wo_actualCost = cost, wo_laborCost = None,
     wo_materialsCost = None, wo_completionNotes = None, wo_vendorNotes = None,
     wo_verifiedAt = None, wo_verifiedBy = None, wo_qualityRating = None,
     wo_vendorRating = None\<rparr>"

definition store2 :: "number option \<Rightarrow> store" where
  "store2 cost = store1\<lparr>damages := [damage1], workOrders := [order2 cost]\<rparr>"

definition complete_params :: "number option \<Rightarrow> CompleteParams" where
  "complete_params cost = \<lparr>cp_actualCost = cost, cp_laborCost = None,
     cp_materialsCost = None, cp_completionNotes = None, cp_vendorNotes = None\<rparr>"









text \<open>
  An inspection completed at time 2000 and the store that holds it; a damage found in it;
  a store with the inspection and a number of such damages.
\<close>

definition inspection1 :: Inspection where
  "inspection1 = \<lparr>i_id = ''i1'', i_propertyId = ''p1'', i_inspectorId = ''u1'',
     i_inspectionType = ''ROUTINE'', i_status = IS_COMPLETED, i_scheduledAt = 0,
     i_startedAt = Some 1000, i_completedAt = Some 2000, i_photos = [], i_checklist = None,
     i_overallCondition = Some ''GOOD'', i_notes = None, i_startLocation = None,
     i_endLocation = None, i_reportUrl = None, i_reportGeneratedAt = None\<rparr>"

definition store3 :: store where
  "store3 = store1\<lparr>inspections := [inspection1]\<rparr>"

definition damage_in :: "string \<Rightarrow> Damage" where
  "damage_in room = damage1\<lparr>d_room := room\<rparr>"

section \<open>Facts about the store\<close>

lemma js_lt_simps:
  "js_lt (Num x) (Num y) = (x < y)" "js_lt NaN b = False" "js_lt a NaN = False"
  by (simp_all add: js_lt_def split: jsnum.splits)

lemma js_gt_simps:
  "js_gt (Num x) (Num y) = (y < x)" "js_gt NaN b = False" "js_gt a NaN = False"
  by (simp_all add: js_gt_def split: jsnum.splits)


lemma checkRating_number:
  "checkRating (Num r) =
     (if r < 1 \<or> 5 < r then Inl (Error ''Rating must be between 1 and 5'') else Inr (Num r))"
  by (simp add: checkRating_def js_lt_simps js_gt_simps)


lemma findUnique_map_update:
  "(\<And>x. key (f x) = key x) \<Longrightarrow>
   findUnique key k (map (\<lambda>x. if key x = k then f x else x) rows) = map_option f (findUnique key k rows)"
  by (induction rows) (simp_all add: findUnique_def)

lemma prisma_update_found:
  "findUnique key k rows = Some r \<Longrightarrow>
   prisma_update key k f rows = Inr (f r, map (\<lambda>x. if key x = k then f x else x) rows)"
  by (simp add: prisma_update_def)

section \<open>Vendor reviews\<close>










text \<open>
  For a rating that is a number: below 1 or above 5 it ends \<open>addReview\<close> with the error
  "Rating must be between 1 and 5" and leaves the store as it was (no review row, no
  change to any vendor), and a call that returns a review had a rating within [1, 5].
\<close>

lemma addReview_validates_number:
  "(p_rating params < 1 \<or> p_rating params > 5 \<longrightarrow>
      addReview newId vendorId params s = (Inl (Error ''Rating must be between 1 and 5''), s)) \<and>
   (\<forall>review s'. addReview newId vendorId params s = (Inr review, s') \<longrightarrow>
      1 \<le> p_rating params \<and> p_rating params \<le> 5)"
  by (auto simp: addReview_def checkRating_number split: if_splits)


section \<open>Vendor statistics on completion\<close>

lemma updateVendorStats_found:
  assumes "findUnique v_id vid (vendors s) = Some v"
  shows "\<exists>s' v'. updateVendorStats vid wo s = Inr s' \<and>
           findUnique v_id vid (vendors s') = Some v' \<and>
           damages s' = damages s \<and> workOrders s' = workOrders s \<and>
           v_totalJobs v' = v_totalJobs v + 1 \<and>
           v_completedJobs v' = v_completedJobs v + 1 \<and>
           v_avgCompletionTime v' =
             patch (newAvg (v_avgCompletionTime v) (v_completedJobs v) (completionTime wo)) (v_avgCompletionTime v) \<and>
           v_avgResponseTime v' =
             patch (newAvg (v_avgResponseTime v) (v_completedJobs v) (responseTime wo)) (v_avgResponseTime v)"
proof -
  define f where "f = (\<lambda>x::Vendor. x\<lparr>v_totalJobs := v_totalJobs x + 1,
                             v_completedJobs := v_completedJobs x + 1,
                             v_avgCompletionTime := patch (newAvg (v_avgCompletionTime v) (v_completedJobs v) (completionTime wo)) (v_avgCompletionTime x),
                             v_avgResponseTime := patch (newAvg (v_avgResponseTime v) (v_completedJobs v) (responseTime wo)) (v_avgResponseTime x)\<rparr>)"
  define rows where "rows = map (\<lambda>x. if v_id x = vid then f x else x) (vendors s)"
  have key: "\<And>x. v_id (f x) = v_id x" by (simp add: f_def)
  have fu: "findUnique v_id vid rows = Some (f v)"
    unfolding rows_def using findUnique_map_update[where key = v_id and f = f, OF key] assms by simp
  have run: "updateVendorStats vid wo s = Inr (s\<lparr>vendors := rows\<rparr>)"
    using assms by (simp add: updateVendorStats_def prisma_update_found Let_def f_def rows_def)
  show ?thesis
    using fu run by (intro exI[of _ "s\<lparr>vendors := rows\<rparr>"] exI[of _ "f v"]) (simp add: f_def)
qed

text \<open>
  C3, as the code has it. When \<open>updateVendorStats\<close> runs for a vendor that exists (its
  count of completed jobs not negative), \<open>totalJobs\<close> and \<open>completedJobs\<close> each grow by
  1. When \<open>startedAt\<close> and \<open>completedAt\<close> are both set and the completion time, the ceiling
  of the days between them, is not 0, the vendor's \<open>avgCompletionTime\<close> becomes: the
  completion time itself when the vendor has no stored average (or the stored average is
  0); otherwise (oldAvg \<times> completedJobs + completionTime) / (completedJobs + 1) rounded
  to the nearest integer, with \<open>completedJobs\<close> the count before the increment. The same
  holds of \<open>avgResponseTime\<close> and the ceiling of the hours between \<open>assignedAt\<close> and
  \<open>startedAt\<close>.
\<close>

theorem updateVendorStats_merges:
  assumes "findUnique v_id vid (vendors s) = Some v" and "0 \<le> v_completedJobs v"
  shows "\<exists>s' v'. updateVendorStats vid wo s = Inr s' \<and>
           findUnique v_id vid (vendors s') = Some v' \<and>
           v_totalJobs v' = v_totalJobs v + 1 \<and>
           v_completedJobs v' = v_completedJobs v + 1 \<and>
           (\<forall>c st. wo_completedAt wo = Some c \<and> wo_startedAt wo = Some st \<and>
                    \<lceil>real_of_int (c - st) / 86400000\<rceil> \<noteq> 0 \<longrightarrow>
              v_avgCompletionTime v' = Some
                (case v_avgCompletionTime v of
                   None \<Rightarrow> \<lceil>real_of_int (c - st) / 86400000\<rceil>
                 | Some a \<Rightarrow>
                     if a = 0 then \<lceil>real_of_int (c - st) / 86400000\<rceil>
                     else round ((real_of_int a * real_of_int (v_completedJobs v)
                                   + real_of_int \<lceil>real_of_int (c - st) / 86400000\<rceil>)
                                 / (real_of_int (v_completedJobs v) + 1)))) \<and>
           (\<forall>a st. wo_assignedAt wo = Some a \<and> wo_startedAt wo = Some st \<and>
                    \<lceil>real_of_int (st - a) / 3600000\<rceil> \<noteq> 0 \<longrightarrow>
              v_avgResponseTime v' = Some
                (case v_avgResponseTime v of
                   None \<Rightarrow> \<lceil>real_of_int (st - a) / 3600000\<rceil>
                 | Some b \<Rightarrow>
                     if b = 0 then \<lceil>real_of_int (st - a) / 3600000\<rceil>
                     else round ((real_of_int b * real_of_int (v_completedJobs v)
                                   + real_of_int \<lceil>real_of_int (st - a) / 3600000\<rceil>)
                                 / (real_of_int (v_completedJobs v) + 1))))"
proof -
  from updateVendorStats_found[OF assms(1), of wo] obtain s' v' where
    run: "updateVendorStats vid wo s = Inr s'"
    and fu: "findUnique v_id vid (vendors s') = Some v'"
    and t: "v_totalJobs v' = v_totalJobs v + 1"
    and cj: "v_completedJobs v' = v_completedJobs v + 1"
    and ac: "v_avgCompletionTime v' =
             patch (newAvg (v_avgCompletionTime v) (v_completedJobs v) (completionTime wo)) (v_avgCompletionTime v)"
    and ar: "v_avgResponseTime v' =
             patch (newAvg (v_avgResponseTime v) (v_completedJobs v) (responseTime wo)) (v_avgResponseTime v)"
    by blast
  have c: "\<forall>c st. wo_completedAt wo = Some c \<and> wo_startedAt wo = Some st \<and>
                    \<lceil>real_of_int (c - st) / 86400000\<rceil> \<noteq> 0 \<longrightarrow>
              v_avgCompletionTime v' = Some
                (case v_avgCompletionTime v of
                   None \<Rightarrow> \<lceil>real_of_int (c - st) / 86400000\<rceil>
                 | Some a \<Rightarrow>
                     if a = 0 then \<lceil>real_of_int (c - st) / 86400000\<rceil>
                     else round ((real_of_int a * real_of_int (v_completedJobs v)
                                   + real_of_int \<lceil>real_of_int (c - st) / 86400000\<rceil>)
                                 / (real_of_int (v_completedJobs v) + 1)))"
    unfolding ac
    by (auto simp: completionTime_def newAvg_def patch_def truthy_int_def Math_round_def
          Math_ceil_def round_def split: option.splits)
  have r: "\<forall>a st. wo_assignedAt wo = Some a \<and> wo_startedAt wo = Some st \<and>
                    \<lceil>real_of_int (st - a) / 3600000\<rceil> \<noteq> 0 \<longrightarrow>
              v_avgResponseTime v' = Some
                (case v_avgResponseTime v of
                   None \<Rightarrow> \<lceil>real_of_int (st - a) / 3600000\<rceil>
                 | Some b \<Rightarrow>
                     if b = 0 then \<lceil>real_of_int (st - a) / 3600000\<rceil>
                     else round ((real_of_int b * real_of_int (v_completedJobs v)
                                   + real_of_int \<lceil>real_of_int (st - a) / 3600000\<rceil>)
                                 / (real_of_int (v_completedJobs v) + 1)))"
    unfolding ar
    by (auto simp: responseTime_def newAvg_def patch_def truthy_int_def Math_round_def
          Math_ceil_def round_def split: option.splits)
  show ?thesis
    using run fu t cj c r by blast
qed

text \<open>
  The specification's scenario: a vendor with one completed job and an average of 2 days
  completes an order that took 4 days (assigned 3 hours before its start): the average
  becomes round((2 \<times> 1 + 4) / 2) = 3, the response time 3, and both counters 2.
\<close>

theorem updateVendorStats_merges_witness:
  "\<exists>s' v'. updateVendorStats ''v1'' (order1 (Some 0) (Some 10800000) (Some 356400000))
              (store_jobs 1 (Some 2)) = Inr s' \<and>
           findUnique v_id ''v1'' (vendors s') = Some v' \<and>
           v_totalJobs v' = 2 \<and> v_completedJobs v' = 2 \<and>
           v_avgCompletionTime v' = Some 3 \<and> v_avgResponseTime v' = Some 3"
proof -
  have found: "findUnique v_id ''v1'' (vendors (store_jobs 1 (Some 2)))
                 = Some (vendor1\<lparr>v_totalJobs := 1, v_completedJobs := 1, v_avgCompletionTime := Some 2\<rparr>)"
    by (simp add: findUnique_def store_jobs_def store1_def vendor1_def)
  have nn: "0 \<le> v_completedJobs (vendor1\<lparr>v_totalJobs := 1, v_completedJobs := 1, v_avgCompletionTime := Some 2\<rparr>)"
    by simp
  from updateVendorStats_merges[OF found nn, of "order1 (Some 0) (Some 10800000) (Some 356400000)"]
  show ?thesis
    by (simp add: order1_def vendor1_def)
qed

text \<open>
  The claim as the specification states it fails. A vendor with three completed jobs and
  no stored average (none of the three had a start date) completes an order that took 2
  days: the code stores 2, the formula gives round((0 \<times> 3 + 2) / 4) = 1. A vendor
  with one completed job and an average of 4 completes an order whose start and
  completion dates are the same instant: both dates are known, the sample is 0, the code
  keeps 4, the formula gives round((4 \<times> 1 + 0) / 2) = 2. And a completion through
  the service as it is built (its publisher never connected) ends before the statistics:
  the vendor's counters stay 0.
\<close>

theorem updateVendorStats_formula_counterexample:
  "updateVendorStats ''v1'' (order1 None (Some 0) (Some 172800000)) (store_jobs 3 None)
     = Inr (store1\<lparr>vendors := [vendor1\<lparr>v_totalJobs := 4, v_completedJobs := 4,
                                      v_avgCompletionTime := Some 2\<rparr>]\<rparr>) \<and>
   completionTime (order1 None (Some 0) (Some 172800000)) = Some 2 \<and>
   spec_newAvg None 3 2 = 1 \<and>
   updateVendorStats ''v1'' (order1 None (Some 5000) (Some 5000)) (store_jobs 1 (Some 4))
     = Inr (store1\<lparr>vendors := [vendor1\<lparr>v_totalJobs := 2, v_completedJobs := 2,
                                      v_avgCompletionTime := Some 4\<rparr>]\<rparr>) \<and>
   completionTime (order1 None (Some 5000) (Some 5000)) = Some 0 \<and>
   spec_newAvg (Some 4) 1 0 = 2 \<and>
   map (\<lambda>v. (v_totalJobs v, v_completedJobs v))
     (vendors (snd (completeWorkOrder new_RabbitMQUtil 90000000 ''w2'' (complete_params (Some 120))
                      (store2 None)))) = [(0, 0)]"
  by (simp add: updateVendorStats_def prisma_update_def findUnique_def store_jobs_def
        store1_def vendor1_def order1_def completionTime_def responseTime_def newAvg_def
        patch_def truthy_int_def Math_round_def Math_ceil_def spec_newAvg_def round_def
        completeWorkOrder_def updateWorkOrder_def publishEvent_def new_RabbitMQUtil_def
        store2_def order2_def Let_def)

section \<open>Vendor rating on verification\<close>

lemma updateVendorRating_found:
  assumes "findUnique v_id vid (vendors s) = Some v"
  shows "\<exists>s' v'. updateVendorRating vid r s = Inr s' \<and>
           findUnique v_id vid (vendors s') = Some v' \<and>
           damages s' = damages s \<and> workOrders s' = workOrders s \<and>
           v_rating v' = Some (newAvgRating v r)"
proof -
  define f where "f = (\<lambda>x::Vendor. x\<lparr>v_rating := Some (newAvgRating v r)\<rparr>)"
  define rows where "rows = map (\<lambda>x. if v_id x = vid then f x else x) (vendors s)"
  have key: "\<And>x. v_id (f x) = v_id x" by (simp add: f_def)
  have fu: "findUnique v_id vid rows = Some (f v)"
    unfolding rows_def using findUnique_map_update[where key = v_id and f = f, OF key] assms by simp
  have run: "updateVendorRating vid r s = Inr (s\<lparr>vendors := rows\<rparr>)"
    using assms by (simp add: updateVendorRating_def prisma_update_found f_def rows_def)
  show ?thesis
    using fu run by (intro exI[of _ "s\<lparr>vendors := rows\<rparr>"] exI[of _ "f v"]) (simp add: f_def)
qed

text \<open>
  C7, as the code has it. When \<open>updateVendorRating\<close> runs for a vendor that exists and
  whose count of completed jobs is not 0, the vendor's rating becomes
  (oldRating \<times> (completedJobs - 1) + vendorRating) / completedJobs, with 0 for a vendor
  without a rating; when the count is 0, the rating becomes the submitted vendorRating.
\<close>

theorem updateVendorRating_formula:
  assumes "findUnique v_id vid (vendors s) = Some v"
  shows "\<exists>s' v'. updateVendorRating vid r s = Inr s' \<and>
           findUnique v_id vid (vendors s') = Some v' \<and>
           (v_completedJobs v \<noteq> 0 \<longrightarrow>
              v_rating v' = Some (((case v_rating v of None \<Rightarrow> 0 | Some x \<Rightarrow> x)
                                     * (real_of_int (v_completedJobs v) - 1) + r)
                                  / real_of_int (v_completedJobs v))) \<and>
           (v_completedJobs v = 0 \<longrightarrow> v_rating v' = Some r)"
proof -
  from updateVendorRating_found[OF assms, of r] obtain s' v' where
    run: "updateVendorRating vid r s = Inr s'"
    and fu: "findUnique v_id vid (vendors s') = Some v'"
    and rt: "v_rating v' = Some (newAvgRating v r)"
    by blast
  have a: "v_completedJobs v \<noteq> 0 \<longrightarrow>
              v_rating v' = Some (((case v_rating v of None \<Rightarrow> 0 | Some x \<Rightarrow> x)
                                     * (real_of_int (v_completedJobs v) - 1) + r)
                                  / real_of_int (v_completedJobs v))"
    unfolding rt by (simp add: newAvgRating_def totalRatings_def or_int_def)
  have b: "v_completedJobs v = 0 \<longrightarrow> v_rating v' = Some r"
    unfolding rt by (simp add: newAvgRating_def totalRatings_def or_int_def)
  show ?thesis using run fu a b by blast
qed

text \<open>
  A vendor with two completed jobs and a rating of 4 is rated 5: the rating becomes
  (4 \<times> 1 + 5) / 2 = 9/2. A vendor without completed jobs is rated 5: the rating is 5.
\<close>

theorem updateVendorRating_formula_witness:
  "(\<exists>s' v'. updateVendorRating ''v1'' 5
               (store1\<lparr>vendors := [vendor1\<lparr>v_completedJobs := 2, v_rating := Some 4\<rparr>]\<rparr>) = Inr s' \<and>
            findUnique v_id ''v1'' (vendors s') = Some v' \<and> v_rating v' = Some (9 / 2)) \<and>
   (\<exists>s' v'. updateVendorRating ''v1'' 5 store1 = Inr s' \<and>
            findUnique v_id ''v1'' (vendors s') = Some v' \<and> v_rating v' = Some 5)"
proof -
  have f2: "findUnique v_id ''v1''
              (vendors (store1\<lparr>vendors := [vendor1\<lparr>v_completedJobs := 2, v_rating := Some 4\<rparr>]\<rparr>))
            = Some (vendor1\<lparr>v_completedJobs := 2, v_rating := Some 4\<rparr>)"
    by (simp add: findUnique_def vendor1_def)
  have f0: "findUnique v_id ''v1'' (vendors store1) = Some vendor1"
    by (simp add: findUnique_def store1_def vendor1_def)
  have two: "\<exists>s' v'. updateVendorRating ''v1'' 5
               (store1\<lparr>vendors := [vendor1\<lparr>v_completedJobs := 2, v_rating := Some 4\<rparr>]\<rparr>) = Inr s' \<and>
            findUnique v_id ''v1'' (vendors s') = Some v' \<and> v_rating v' = Some (9 / 2)"
    using updateVendorRating_formula[OF f2, of 5] by simp
  have none: "\<exists>s' v'. updateVendorRating ''v1'' 5 store1 = Inr s' \<and>
            findUnique v_id ''v1'' (vendors s') = Some v' \<and> v_rating v' = Some 5"
    using updateVendorRating_formula[OF f0, of 5] by (simp add: vendor1_def)
  show ?thesis using two none by blast
qed

text \<open>
  The claim as the specification states it fails for a vendor without completed jobs (a
  work order verified before any was completed): the code stores the submitted rating 4,
  which is no quotient by the completed-job count 0: 4 \<times> 0 is not 0 \<times> (0 - 1) + 4.
  And a verification through the service as it is built (its publisher never connected)
  ends before the rating update: the vendor stays without a rating.
\<close>

theorem updateVendorRating_formula_counterexample:
  "updateVendorRating ''v1'' 4 store1 = Inr (store1\<lparr>vendors := [vendor1\<lparr>v_rating := Some 4\<rparr>]\<rparr>) \<and>
   v_completedJobs vendor1 = 0 \<and> v_rating vendor1 = None \<and>
   4 * real_of_int (v_completedJobs vendor1) \<noteq> 0 * (real_of_int (v_completedJobs vendor1) - 1) + 4 \<and>
   spec_newRating 0 (v_completedJobs vendor1) 4 \<noteq> 4 \<and>
   map v_rating
     (vendors (snd (verifyWorkOrder new_RabbitMQUtil 90000000 ''w2''
                      \<lparr>vp_verifiedBy = ''u1'', vp_qualityRating = 5, vp_vendorRating = 4\<rparr>
                      (store2 None)))) = [None]"
  by (simp add: updateVendorRating_def prisma_update_def findUnique_def store1_def vendor1_def
        newAvgRating_def totalRatings_def or_int_def spec_newRating_def
        verifyWorkOrder_def updateWorkOrder_def publishEvent_def new_RabbitMQUtil_def
        store2_def order2_def Let_def)

text \<open>
  C10. The divisor of the rating update, \<open>totalRatings\<close>, is never 0. For a vendor whose
  count of completed jobs is 0 it is 1, the new average is the submitted rating, and
  \<open>updateVendorRating\<close> stores exactly that rating.
\<close>

theorem updateVendorRating_never_divides_by_zero:
  "totalRatings v \<noteq> 0 \<and>
   (v_completedJobs v = 0 \<longrightarrow> totalRatings v = 1 \<and> newAvgRating v r = r) \<and>
   (findUnique v_id vid (vendors s) = Some v \<and> v_completedJobs v = 0 \<longrightarrow>
      (\<exists>s' v'. updateVendorRating vid r s = Inr s' \<and>
               findUnique v_id vid (vendors s') = Some v' \<and> v_rating v' = Some r))"
proof -
  have a: "totalRatings v \<noteq> 0"
    by (simp add: totalRatings_def or_int_def)
  have b: "v_completedJobs v = 0 \<longrightarrow> totalRatings v = 1 \<and> newAvgRating v r = r"
    by (simp add: newAvgRating_def totalRatings_def or_int_def)
  have c: "findUnique v_id vid (vendors s) = Some v \<and> v_completedJobs v = 0 \<longrightarrow>
      (\<exists>s' v'. updateVendorRating vid r s = Inr s' \<and>
               findUnique v_id vid (vendors s') = Some v' \<and> v_rating v' = Some r)"
  proof
    assume h: "findUnique v_id vid (vendors s) = Some v \<and> v_completedJobs v = 0"
    from updateVendorRating_found[of vid s v r] h b show
      "\<exists>s' v'. updateVendorRating vid r s = Inr s' \<and>
               findUnique v_id vid (vendors s') = Some v' \<and> v_rating v' = Some r"
      by auto
  qed
  show ?thesis using a b c by blast
qed

text \<open>A vendor without completed jobs, rated 3.\<close>

theorem updateVendorRating_never_divides_by_zero_witness:
  "totalRatings vendor1 = 1 \<and> newAvgRating vendor1 3 = 3 \<and>
   (\<exists>s' v'. updateVendorRating ''v1'' 3 store1 = Inr s' \<and>
            findUnique v_id ''v1'' (vendors s') = Some v' \<and> v_rating v' = Some 3)"
proof -
  have f0: "findUnique v_id ''v1'' (vendors store1) = Some vendor1 \<and> v_completedJobs vendor1 = 0"
    by (simp add: findUnique_def store1_def vendor1_def)
  from updateVendorRating_never_divides_by_zero[of vendor1 3 "''v1''" store1] f0
  show ?thesis by blast
qed

section \<open>Completion of a work order\<close>

lemma updateWorkOrder_published:
  assumes "channel mq = Some (Channel None)"
    and "findUnique wo_id woId (workOrders s) = Some w"
  shows "updateWorkOrder mq woId p s =
           (Inr (apply_update p w),
            s\<lparr>workOrders := map (\<lambda>x. if wo_id x = woId then apply_update p x else x) (workOrders s)\<rparr>)"
  using assms by (simp add: updateWorkOrder_def prisma_update_found publishEvent_def Let_def)

lemma updateWorkOrder_unpublished:
  assumes "channel mq = None"
    and "findUnique wo_id woId (workOrders s) = Some w"
  shows "updateWorkOrder mq woId p s =
           (Inl (Error ''RabbitMQ channel not initialized''),
            s\<lparr>workOrders := map (\<lambda>x. if wo_id x = woId then apply_update p x else x) (workOrders s)\<rparr>)"
  using assms by (simp add: updateWorkOrder_def prisma_update_found publishEvent_def Let_def)

lemma updateVendorStats_total:
  "\<exists>s'. updateVendorStats vid wo s = Inr s' \<and> damages s' = damages s \<and> workOrders s' = workOrders s"
proof (cases "findUnique v_id vid (vendors s)")
  case None
  then show ?thesis by (simp add: updateVendorStats_def)
next
  case (Some v)
  from updateVendorStats_found[OF Some, of wo] show ?thesis by blast
qed

text \<open>
  C2, as the code has it. Let the \<open>updated\<close> event of the work order be published (the
  service's channel is open and accepts it), and let the work order exist and name a
  damage that exists. Then \<open>completeWorkOrder\<close> returns the work order, \<open>COMPLETED\<close> at the
  time of the call, and leaves the damage \<open>REPAIRED\<close> whatever its status was. When the
  call gives an \<open>actualCost\<close>, the damage and the work order both carry it; when it gives
  none, each keeps the \<open>actualCost\<close> it had.
\<close>

theorem completeWorkOrder_repairs_damage:
  assumes "channel mq = Some (Channel None)"
    and "findUnique wo_id woId (workOrders s) = Some w"
    and "wo_damageId w = Some did" and "did \<noteq> []"
    and "findUnique d_id did (damages s) = Some d"
  shows "\<exists>wo' s' d'. completeWorkOrder mq now woId params s = (Inr wo', s') \<and>
           findUnique wo_id woId (workOrders s') = Some wo' \<and>
           wo_status wo' = WO_COMPLETED \<and> wo_completedAt wo' = Some now \<and>
           findUnique d_id did (damages s') = Some d' \<and>
           d_status d' = REPAIRED \<and>
           (case cp_actualCost params of
              Some c \<Rightarrow> d_actualCost d' = Some c \<and> wo_actualCost wo' = Some c
            | None \<Rightarrow> d_actualCost d' = d_actualCost d \<and> wo_actualCost wo' = wo_actualCost w)"
proof -
  define p where "p = no_update\<lparr>up_status := Some WO_COMPLETED, up_completedAt := Some now,
                up_actualCost := cp_actualCost params, up_laborCost := cp_laborCost params,
                up_materialsCost := cp_materialsCost params,
                up_completionNotes := cp_completionNotes params,
                up_vendorNotes := cp_vendorNotes params\<rparr>"
  define wo' where "wo' = apply_update p w"
  define s1 where "s1 = s\<lparr>workOrders := map (\<lambda>x. if wo_id x = woId then apply_update p x else x) (workOrders s)\<rparr>"
  define g where "g = (\<lambda>x::Damage. x\<lparr>d_status := REPAIRED,
                         d_actualCost := patch (cp_actualCost params) (d_actualCost x)\<rparr>)"
  define s2 where "s2 = s1\<lparr>damages := map (\<lambda>x. if d_id x = did then g x else x) (damages s1)\<rparr>"
  have up: "updateWorkOrder mq woId p s = (Inr wo', s1)"
    using updateWorkOrder_published[OF assms(1,2), of p] by (simp add: wo'_def s1_def)
  have woid: "\<And>x. wo_id (apply_update p x) = wo_id x" by (simp add: apply_update_def)
  have fw: "findUnique wo_id woId (workOrders s1) = Some wo'"
    unfolding s1_def wo'_def
    using findUnique_map_update[where key = wo_id and f = "apply_update p", OF woid] assms(2) by simp
  have dam: "wo_damageId wo' = Some did"
    using assms(3) by (simp add: wo'_def apply_update_def)
  have d1: "findUnique d_id did (damages s1) = Some d" using assms(5) by (simp add: s1_def)
  have gid: "\<And>x. d_id (g x) = d_id x" by (simp add: g_def)
  have fd: "findUnique d_id did (damages s2) = Some (g d)"
    unfolding s2_def
    using findUnique_map_update[where key = d_id and f = g, OF gid] d1 by simp
  have pu: "prisma_update d_id did g (damages s1) = Inr (g d, map (\<lambda>x. if d_id x = did then g x else x) (damages s1))"
    using prisma_update_found[OF d1] by simp
  have fw2: "findUnique wo_id woId (workOrders s2) = Some wo'" using fw by (simp add: s2_def)
  have "\<exists>s3. completeWorkOrder mq now woId params s = (Inr wo', s3) \<and>
             damages s3 = damages s2 \<and> workOrders s3 = workOrders s2"
  proof (cases "wo_vendorId wo'")
    case None
    then show ?thesis
      using up dam assms(4) pu
      by (simp add: completeWorkOrder_def p_def[symmetric] g_def[symmetric] s2_def)
  next
    case (Some vendorId)
    show ?thesis
    proof (cases "vendorId = []")
      case True
      then show ?thesis
        using up dam assms(4) pu Some
        by (simp add: completeWorkOrder_def p_def[symmetric] g_def[symmetric] s2_def)
    next
      case False
      from updateVendorStats_total[of vendorId wo' s2] obtain s3 where
        st: "updateVendorStats vendorId wo' s2 = Inr s3"
        and same: "damages s3 = damages s2" "workOrders s3 = workOrders s2" by blast
      then show ?thesis
        using up dam assms(4) pu Some False
        by (simp add: completeWorkOrder_def p_def[symmetric] g_def[symmetric] s2_def[symmetric])
    qed
  qed
  then obtain s3 where run: "completeWorkOrder mq now woId params s = (Inr wo', s3)"
    and same: "damages s3 = damages s2" "workOrders s3 = workOrders s2" by blast
  have w1: "wo_status wo' = WO_COMPLETED" "wo_completedAt wo' = Some now"
    by (simp_all add: wo'_def p_def apply_update_def patch_def patch1_def no_update_def)
  have cost: "(case cp_actualCost params of
              Some c \<Rightarrow> d_actualCost (g d) = Some c \<and> wo_actualCost wo' = Some c
            | None \<Rightarrow> d_actualCost (g d) = d_actualCost d \<and> wo_actualCost wo' = wo_actualCost w)"
    by (simp add: wo'_def p_def g_def apply_update_def patch_def no_update_def split: option.splits)
  have st: "d_status (g d) = REPAIRED" by (simp add: g_def)
  show ?thesis
    using run fw2 fd w1 cost st same
    by (intro exI[of _ wo'] exI[of _ s3] exI[of _ "g d"]) simp
qed

text \<open>
  With an open channel, completing the order for damage \<open>d1\<close> at a cost of 120 leaves
  the damage repaired at 120, the cost the work order carries.
\<close>

theorem completeWorkOrder_repairs_damage_witness:
  "\<exists>wo' s' d'. completeWorkOrder connected 90000000 ''w2'' (complete_params (Some 120)) (store2 None)
                  = (Inr wo', s') \<and>
               findUnique wo_id ''w2'' (workOrders s') = Some wo' \<and>
               wo_status wo' = WO_COMPLETED \<and> wo_completedAt wo' = Some 90000000 \<and>
               findUnique d_id ''d1'' (damages s') = Some d' \<and>
               d_status d' = REPAIRED \<and>
               d_actualCost d' = Some 120 \<and> wo_actualCost wo' = Some 120"
proof -
  have c: "channel connected = Some (Channel None)" by (simp add: connected_def)
  have w: "findUnique wo_id ''w2'' (workOrders (store2 None)) = Some (order2 None)"
    by (simp add: findUnique_def store2_def order2_def)
  have l: "wo_damageId (order2 None) = Some ''d1''" by (simp add: order2_def)
  have n: "''d1'' \<noteq> []" by simp
  have d: "findUnique d_id ''d1'' (damages (store2 None)) = Some damage1"
    by (simp add: findUnique_def store2_def damage1_def)
  from completeWorkOrder_repairs_damage[OF c w l n d, of 90000000 "complete_params (Some 120)"]
  show ?thesis by (simp add: complete_params_def)
qed

text \<open>
  The claim as the specification states it fails twice on the same order. With the
  publisher every service holds (\<open>new RabbitMQUtil()\<close>, never connected), the call ends
  with "RabbitMQ channel not initialized" after the work order is written and before the
  damage is touched: the damage stays \<open>REPAIR_SCHEDULED\<close> without a cost while the work
  order carries 120. With an open channel and no \<open>actualCost\<close> in the call, a work order
  that already carried a cost of 250 keeps it, and the damage is repaired with no cost.
\<close>

theorem completeWorkOrder_counterexample:
  "fst (completeWorkOrder new_RabbitMQUtil 90000000 ''w2'' (complete_params (Some 120)) (store2 None))
     = Inl (Error ''RabbitMQ channel not initialized'') \<and>
   map (\<lambda>d. (d_status d, d_actualCost d))
     (damages (snd (completeWorkOrder new_RabbitMQUtil 90000000 ''w2'' (complete_params (Some 120)) (store2 None))))
     = [(REPAIR_SCHEDULED, None)] \<and>
   map (\<lambda>w. (wo_status w, wo_actualCost w))
     (workOrders (snd (completeWorkOrder new_RabbitMQUtil 90000000 ''w2'' (complete_params (Some 120)) (store2 None))))
     = [(WO_COMPLETED, Some 120)] \<and>
   map (\<lambda>d. (d_status d, d_actualCost d))
     (damages (snd (completeWorkOrder connected 90000000 ''w2'' (complete_params None) (store2 (Some 250)))))
     = [(REPAIRED, None)] \<and>
   map (\<lambda>w. (wo_status w, wo_actualCost w))
     (workOrders (snd (completeWorkOrder connected 90000000 ''w2'' (complete_params None) (store2 (Some 250)))))
     = [(WO_COMPLETED, Some 250)]"
  by (simp add: completeWorkOrder_def updateWorkOrder_def updateVendorStats_def
        prisma_update_def findUnique_def publishEvent_def new_RabbitMQUtil_def connected_def
        store2_def store1_def order2_def damage1_def vendor1_def complete_params_def
        apply_update_def no_update_def patch_def patch1_def Let_def)

text \<open>
  How a completion and a verification reach the two vendor updates: when the event of
  the work-order update is published, and the work order exists, names no damage and is
  assigned to a vendor, \<open>completeWorkOrder\<close> runs \<open>updateVendorStats\<close> on the work order as
  updated (completed at the time of the call, its other dates as stored), and
  \<open>verifyWorkOrder\<close> runs \<open>updateVendorRating\<close> with the submitted vendor rating.
\<close>

lemma completeWorkOrder_reaches_stats:
  assumes "channel mq = Some (Channel None)"
    and "findUnique wo_id woId (workOrders s) = Some w"
    and "wo_damageId w = None" and "wo_vendorId w = Some vid" and "vid \<noteq> []"
  shows "\<exists>wo' s1. updateVendorStats vid wo' s1 \<noteq> Inl e \<and>
           wo_completedAt wo' = Some now \<and> wo_startedAt wo' = wo_startedAt w \<and>
           wo_assignedAt wo' = wo_assignedAt w \<and> vendors s1 = vendors s \<and>
           completeWorkOrder mq now woId params s =
             (case updateVendorStats vid wo' s1 of Inl e \<Rightarrow> (Inl e, s1) | Inr s3 \<Rightarrow> (Inr wo', s3))"
proof -
  define p where "p = no_update\<lparr>up_status := Some WO_COMPLETED, up_completedAt := Some now,
                up_actualCost := cp_actualCost params, up_laborCost := cp_laborCost params,
                up_materialsCost := cp_materialsCost params,
                up_completionNotes := cp_completionNotes params,
                up_vendorNotes := cp_vendorNotes params\<rparr>"
  define wo' where "wo' = apply_update p w"
  define s1 where "s1 = s\<lparr>workOrders := map (\<lambda>x. if wo_id x = woId then apply_update p x else x) (workOrders s)\<rparr>"
  have up: "updateWorkOrder mq woId p s = (Inr wo', s1)"
    using updateWorkOrder_published[OF assms(1,2), of p] by (simp add: wo'_def s1_def)
  have f: "wo_damageId wo' = None" "wo_vendorId wo' = Some vid"
    "wo_completedAt wo' = Some now" "wo_startedAt wo' = wo_startedAt w"
    "wo_assignedAt wo' = wo_assignedAt w"
    using assms(3,4) by (simp_all add: wo'_def p_def apply_update_def patch_def no_update_def)
  have run: "completeWorkOrder mq now woId params s =
             (case updateVendorStats vid wo' s1 of Inl e \<Rightarrow> (Inl e, s1) | Inr s3 \<Rightarrow> (Inr wo', s3))"
    using up f assms(5) by (simp add: completeWorkOrder_def p_def[symmetric])
  have ne: "updateVendorStats vid wo' s1 \<noteq> Inl e"
    using updateVendorStats_total[of vid wo' s1] by auto
  show ?thesis
    using run f ne by (intro exI[of _ wo'] exI[of _ s1]) (simp add: s1_def)
qed

lemma verifyWorkOrder_reaches_rating:
  assumes "channel mq = Some (Channel None)"
    and "findUnique wo_id woId (workOrders s) = Some w"
    and "wo_damageId w = None" and "wo_vendorId w = Some vid" and "vid \<noteq> []"
  shows "\<exists>wo' s1. vendors s1 = vendors s \<and>
           verifyWorkOrder mq now woId params s =
             (case updateVendorRating vid (vp_vendorRating params) s1 of
                Inl e \<Rightarrow> (Inl e, s1) | Inr s3 \<Rightarrow> (Inr wo', s3))"
proof -
  define p where "p = no_update\<lparr>up_status := Some WO_VERIFIED, up_verifiedAt := Some now,
                up_verifiedBy := Some (vp_verifiedBy params),
                up_qualityRating := Some (vp_qualityRating params),
                up_vendorRating := Some (vp_vendorRating params)\<rparr>"
  define wo' where "wo' = apply_update p w"
  define s1 where "s1 = s\<lparr>workOrders := map (\<lambda>x. if wo_id x = woId then apply_update p x else x) (workOrders s)\<rparr>"
  have up: "updateWorkOrder mq woId p s = (Inr wo', s1)"
    using updateWorkOrder_published[OF assms(1,2), of p] by (simp add: wo'_def s1_def)
  have f: "wo_damageId wo' = None" "wo_vendorId wo' = Some vid"
    using assms(3,4) by (simp_all add: wo'_def p_def apply_update_def patch_def no_update_def)
  have run: "verifyWorkOrder mq now woId params s =
             (case updateVendorRating vid (vp_vendorRating params) s1 of
                Inl e \<Rightarrow> (Inl e, s1) | Inr s3 \<Rightarrow> (Inr wo', s3))"
    using up f assms(5) by (simp add: verifyWorkOrder_def p_def[symmetric])
  show ?thesis
    using run by (intro exI[of _ wo'] exI[of _ s1]) (simp add: s1_def)
qed

text \<open>
  With the publisher a service is built with, \<open>completeWorkOrder\<close> and \<open>verifyWorkOrder\<close>
  never return a work order, and leave the damages and the vendors as they were: the
  call ends on a missing row, or after the row is written, when the event is published.
\<close>

lemma completeWorkOrder_as_built:
  "isl (fst (completeWorkOrder new_RabbitMQUtil now woId params s)) \<and>
   damages (snd (completeWorkOrder new_RabbitMQUtil now woId params s)) = damages s \<and>
   vendors (snd (completeWorkOrder new_RabbitMQUtil now woId params s)) = vendors s"
  by (simp add: completeWorkOrder_def updateWorkOrder_def publishEvent_def new_RabbitMQUtil_def
        Let_def split: sum.splits prod.splits)

lemma verifyWorkOrder_as_built:
  "isl (fst (verifyWorkOrder new_RabbitMQUtil now woId params s)) \<and>
   damages (snd (verifyWorkOrder new_RabbitMQUtil now woId params s)) = damages s \<and>
   vendors (snd (verifyWorkOrder new_RabbitMQUtil now woId params s)) = vendors s"
  by (simp add: verifyWorkOrder_def updateWorkOrder_def publishEvent_def new_RabbitMQUtil_def
        Let_def split: sum.splits prod.splits)

section \<open>Deleting a vendor\<close>

lemma deleteVendor_conflict:
  "activeWorkOrders vid s > 0 \<Longrightarrow>
   deleteVendor mq vid s = (Inl (Error ''Cannot delete vendor with active work orders''), s)"
  by (simp add: deleteVendor_def)

lemma deleteVendor_removes:
  assumes "activeWorkOrders vid s = 0" and "findUnique v_id vid (vendors s) = Some v"
  shows "snd (deleteVendor mq vid s) = s\<lparr>vendors := filter (\<lambda>x. v_id x \<noteq> vid) (vendors s)\<rparr> \<and>
         fst (deleteVendor mq vid s) = publishEvent mq \<lparr>eventType = ''deleted'', entityType = ''vendor'', entityId = vid\<rparr>"
  using assms
  by (simp add: deleteVendor_def prisma_delete_def Let_def split: sum.splits)

text \<open>
  C6 on the code. Vendor \<open>v1\<close> has no work order. \<open>deleteVendor\<close>, run with the publisher
  the vendor service holds, removes the row and then ends with the error of
  \<open>publishEvent\<close>; it does not succeed. With an open order of the vendor the call ends with
  "Cannot delete vendor with active work orders" and the store is as it was.
\<close>

theorem deleteVendor_unconnected_publisher:
  "deleteVendor new_RabbitMQUtil ''v1'' store1
     = (Inl (Error ''RabbitMQ channel not initialized''), store1\<lparr>vendors := []\<rparr>) \<and>
   activeWorkOrders ''v1'' store1 = 0 \<and>
   deleteVendor new_RabbitMQUtil ''v1'' (store2 None)
     = (Inl (Error ''Cannot delete vendor with active work orders''), store2 None)"
  by (simp add: deleteVendor_def activeWorkOrders_def prisma_delete_def findUnique_def
        publishEvent_def new_RabbitMQUtil_def store2_def store1_def vendor1_def order2_def)

section \<open>Detection of damage from an image\<close>

lemma detectDamage_detected:
  "ai_detected (detectDamage http) \<Longrightarrow>
     ai_damageType (detectDamage http) \<noteq> None \<and> ai_severity (detectDamage http) \<noteq> None \<and>
     ai_boundingBox (detectDamage http) \<noteq> None"
  by (auto simp: detectDamage_def Let_def split: sum.splits option.splits list.splits if_splits)




text \<open>
  A label that names an inherited member is not mapped to the fallback: the type
  \<open>constructor\<close> and the severity \<open>__proto__\<close> give inherited members, and so does the
  fallback cost for the severity \<open>toString\<close>.
\<close>

lemma inherited_labels:
  "mapAIDamageType ''Constructor'' = Inherited ''constructor'' \<and>
   mapAISeverity ''__proto__'' = Inherited ''__proto__'' \<and>
   estimatedCost (estimateRepairCost (Inl e) ''toString'') = Inherited ''toString'' \<and>
   mapAIDamageType ''Graffiti'' = Own OTHER \<and>
   mapAISeverity ''Severe'' = Own CRITICAL"
proof -
  have "toLowerCase ''Constructor'' = ''constructor''" "toLowerCase ''__proto__'' = ''__proto__''"
    "toLowerCase ''Graffiti'' = ''graffiti''" "toLowerCase ''Severe'' = ''severe''"
    by code_simp+
  then show ?thesis
    by (simp add: mapAIDamageType_def mapAISeverity_def estimateRepairCost_def property_def
          Object_prototype_def baseEstimates_def)
qed

text \<open>
  When the upload fails, the call fails with the upload's error and the store is as it
  was. When the upload succeeds, the confidence reported is a number \<open>c\<close> and the
  threshold a number \<open>t\<close>, the call returns \<open>null\<close> with the store as it was exactly when
  nothing is detected or \<open>c < t\<close>.
\<close>

lemma detectDamageFromImage_upload_fails:
  "io_upload io = Inl e \<Longrightarrow> detectDamageFromImage cfg mq percent io params s = (Inl e, s)"
  by (simp add: detectDamageFromImage_def)

lemma detectDamageFromImage_null_numbers:
  assumes "io_upload io = Inr url"
    and "confidenceThreshold cfg = Num t"
    and "ai_confidence (detectDamage (io_detect io)) = Some (Num c)"
  shows "(detectDamageFromImage cfg mq percent io params s = (Inr None, s)) =
         (\<not> ai_detected (detectDamage (io_detect io)) \<or> c < t)"
  using assms
  by (auto simp: detectDamageFromImage_def Let_def to_number_def js_lt_simps damage_create_def
           split: sum.splits member.splits prod.splits)




section \<open>The inspection invariant\<close>

lemma updateInspection_keeps:
  assumes "completed_invariant s"
    and "\<forall>i \<in> set (inspections s). i_id i = inspId \<longrightarrow>
           i_completedAt (apply_inspection_update p i) = None \<or>
           i_status (apply_inspection_update p i) = IS_COMPLETED"
  shows "completed_invariant (snd (updateInspection mq inspId p s))"
proof (cases "findUnique i_id inspId (inspections s)")
  case None
  then show ?thesis
    using assms(1) by (simp add: updateInspection_def prisma_update_def)
next
  case (Some i)
  have "snd (updateInspection mq inspId p s) =
          s\<lparr>inspections := map (\<lambda>x. if i_id x = inspId then apply_inspection_update p x else x)
                               (inspections s)\<rparr>"
    using Some by (simp add: updateInspection_def prisma_update_def Let_def split: sum.splits)
  then show ?thesis
    using assms by (auto simp: completed_invariant_def list_all_iff)
qed

lemma createInspection_keeps:
  "completed_invariant s \<Longrightarrow> completed_invariant (snd (createInspection mq newId params s))"
  by (simp add: createInspection_def completed_invariant_def Let_def split: sum.splits)

lemma generateReport_keeps:
  assumes "completed_invariant s"
  shows "completed_invariant (snd (generateReport f up now inspId s))"
proof (cases "findUnique i_id inspId (inspections s)")
  case None
  then show ?thesis using assms by (simp add: generateReport_def)
next
  case (Some i)
  show ?thesis
  proof (cases "up (render_report f i (filter (\<lambda>d. d_inspectionId d = inspId) (damages s)))")
    case (Inl e)
    then show ?thesis using Some assms by (simp add: generateReport_def)
  next
    case (Inr url)
    then have "snd (generateReport f up now inspId s) =
          s\<lparr>inspections := map (\<lambda>x. if i_id x = inspId
                                      then x\<lparr>i_reportUrl := Some url, i_reportGeneratedAt := Some now\<rparr>
                                      else x) (inspections s)\<rparr>"
      using Some by (simp add: generateReport_def prisma_update_def)
    then show ?thesis
      using assms by (auto simp: completed_invariant_def list_all_iff)
  qed
qed

text \<open>
  C8, as the code has it. From a store in which every inspection with \<open>completedAt\<close> set
  has status \<open>COMPLETED\<close>: \<open>createInspection\<close>, \<open>completeInspection\<close>, \<open>addPhoto\<close> and
  \<open>generateReport\<close> lead to such a store again, whatever their arguments and whatever
  their collaborators come to; \<open>startInspection\<close> does when the inspection it starts has
  no \<open>completedAt\<close>; \<open>updateInspection\<close> does when its patch sets the status \<open>COMPLETED\<close> or
  leaves both the status and \<open>completedAt\<close> alone.
\<close>

theorem inspection_ops_keep_invariant:
  assumes "completed_invariant s" and "keeps_invariant s op"
  shows "completed_invariant (run_op mq op s)"
proof (cases op)
  case (Create newId params)
  then show ?thesis using assms(1) by (simp add: createInspection_keeps)
next
  case (Update inspId params)
  have "\<forall>i \<in> set (inspections s). i_id i = inspId \<longrightarrow>
           i_completedAt (apply_inspection_update params i) = None \<or>
           i_status (apply_inspection_update params i) = IS_COMPLETED"
    using assms Update
    by (auto simp: apply_inspection_update_def patch_def patch1_def completed_invariant_def list_all_iff)
  then show ?thesis
    using Update assms(1) by (simp add: updateInspection_keeps)
next
  case (Start now inspId location)
  have "\<forall>i \<in> set (inspections s). i_id i = inspId \<longrightarrow>
           i_completedAt (apply_inspection_update
              (no_inspection_update\<lparr>ui_status := Some IS_IN_PROGRESS, ui_startedAt := Some now,
                 ui_startLocation := location\<rparr>) i) = None \<or>
           i_status (apply_inspection_update
              (no_inspection_update\<lparr>ui_status := Some IS_IN_PROGRESS, ui_startedAt := Some now,
                 ui_startLocation := location\<rparr>) i) = IS_COMPLETED"
    using assms(2) Start
    by (auto simp: apply_inspection_update_def patch_def no_inspection_update_def list_all_iff)
  then show ?thesis
    using Start assms(1) by (simp add: startInspection_def updateInspection_keeps)
next
  case (Complete now inspId params)
  have "\<forall>i \<in> set (inspections s). i_id i = inspId \<longrightarrow>
           i_completedAt (apply_inspection_update
              (no_inspection_update\<lparr>ui_status := Some IS_COMPLETED, ui_completedAt := Some now,
                 ui_overallCondition := Some (co_overallCondition params), ui_notes := co_notes params,
                 ui_endLocation := co_location params\<rparr>) i) = None \<or>
           i_status (apply_inspection_update
              (no_inspection_update\<lparr>ui_status := Some IS_COMPLETED, ui_completedAt := Some now,
                 ui_overallCondition := Some (co_overallCondition params), ui_notes := co_notes params,
                 ui_endLocation := co_location params\<rparr>) i) = IS_COMPLETED"
    by (simp add: apply_inspection_update_def patch1_def no_inspection_update_def)
  then show ?thesis
    using Complete assms(1) by (simp add: completeInspection_def updateInspection_keeps)
next
  case (AddPhoto now inspId upload metadata)
  show ?thesis
  proof (cases upload)
    case (Inl e)
    then show ?thesis using AddPhoto assms(1) by (simp add: addPhoto_def)
  next
    case (Inr url)
    show ?thesis
    proof (cases "findUnique i_id inspId (inspections s)")
      case None
      then show ?thesis using AddPhoto Inr assms(1) by (simp add: addPhoto_def)
    next
      case (Some inspection)
      have "\<forall>i \<in> set (inspections s). i_id i = inspId \<longrightarrow>
           i_completedAt (apply_inspection_update
              (no_inspection_update\<lparr>ui_photos := Some (i_photos inspection @
                 [\<lparr>ph_url = url, ph_timestamp = now, ph_gps = pp_gps metadata,
                   ph_room = pp_room metadata, ph_angle = pp_angle metadata,
                   ph_device = pp_device metadata\<rparr>])\<rparr>) i) = None \<or>
           i_status (apply_inspection_update
              (no_inspection_update\<lparr>ui_photos := Some (i_photos inspection @
                 [\<lparr>ph_url = url, ph_timestamp = now, ph_gps = pp_gps metadata,
                   ph_room = pp_room metadata, ph_angle = pp_angle metadata,
                   ph_device = pp_device metadata\<rparr>])\<rparr>) i) = IS_COMPLETED"
        using assms(1)
        by (auto simp: apply_inspection_update_def patch_def patch1_def no_inspection_update_def
              completed_invariant_def list_all_iff)
      then show ?thesis
        using AddPhoto Inr Some assms(1) by (simp add: addPhoto_def Let_def updateInspection_keeps)
    qed
  qed
next
  case (GenerateReport now inspId upload)
  then show ?thesis using assms(1) by (simp add: generateReport_keeps)
qed

text \<open>
  A scheduled inspection is started, then completed, and a patch that only sets notes is
  applied to the completed one: the invariant holds after each.
\<close>

theorem inspection_ops_keep_invariant_witness:
  "completed_invariant
     (run_op new_RabbitMQUtil (Start 5000 ''i1'' None)
        (store1\<lparr>inspections := [inspection1\<lparr>i_status := IS_SCHEDULED, i_startedAt := None,
                                               i_completedAt := None\<rparr>]\<rparr>)) \<and>
   completed_invariant
     (run_op new_RabbitMQUtil
        (Complete 9000 ''i1'' \<lparr>co_overallCondition = ''GOOD'', co_notes = None, co_location = None\<rparr>)
        (store1\<lparr>inspections := [inspection1\<lparr>i_status := IS_IN_PROGRESS, i_completedAt := None\<rparr>]\<rparr>)) \<and>
   completed_invariant
     (run_op connected (Update ''i1'' (no_inspection_update\<lparr>ui_notes := Some ''Checked''\<rparr>)) store3)"
proof -
  have a: "completed_invariant
             (store1\<lparr>inspections := [inspection1\<lparr>i_status := IS_SCHEDULED, i_startedAt := None,
                                                    i_completedAt := None\<rparr>]\<rparr>)"
    by (simp add: completed_invariant_def)
  have a': "keeps_invariant
             (store1\<lparr>inspections := [inspection1\<lparr>i_status := IS_SCHEDULED, i_startedAt := None,
                                                    i_completedAt := None\<rparr>]\<rparr>)
             (Start 5000 ''i1'' None)"
    by simp
  have b: "completed_invariant
             (store1\<lparr>inspections := [inspection1\<lparr>i_status := IS_IN_PROGRESS, i_completedAt := None\<rparr>]\<rparr>)"
    by (simp add: completed_invariant_def)
  have b': "keeps_invariant
             (store1\<lparr>inspections := [inspection1\<lparr>i_status := IS_IN_PROGRESS, i_completedAt := None\<rparr>]\<rparr>)
             (Complete 9000 ''i1'' \<lparr>co_overallCondition = ''GOOD'', co_notes = None, co_location = None\<rparr>)"
    by simp
  have c: "completed_invariant store3"
    by (simp add: completed_invariant_def store3_def inspection1_def)
  have c': "keeps_invariant store3 (Update ''i1'' (no_inspection_update\<lparr>ui_notes := Some ''Checked''\<rparr>))"
    by (simp add: no_inspection_update_def)
  show ?thesis
    using inspection_ops_keep_invariant[OF a a', of new_RabbitMQUtil]
      inspection_ops_keep_invariant[OF b b', of new_RabbitMQUtil]
      inspection_ops_keep_invariant[OF c c', of connected]
    by blast
qed

text \<open>
  The claim as the specification states it fails: \<open>store3\<close> holds one inspection, completed
  at time 2000 with status \<open>COMPLETED\<close>. \<open>startInspection\<close> of it writes status
  \<open>IN_PROGRESS\<close> and leaves \<open>completedAt\<close> set; so does \<open>updateInspection\<close> with a patch
  that sets the status \<open>SCHEDULED\<close>. Either way, whether the event is published or not.
\<close>

theorem inspection_invariant_counterexample:
  "completed_invariant store3 \<and>
   \<not> completed_invariant (run_op new_RabbitMQUtil (Start 5000 ''i1'' None) store3) \<and>
   \<not> completed_invariant (run_op connected (Start 5000 ''i1'' None) store3) \<and>
   map (\<lambda>i. (i_status i, i_completedAt i))
     (inspections (run_op connected (Start 5000 ''i1'' None) store3)) = [(IS_IN_PROGRESS, Some 2000)] \<and>
   \<not> completed_invariant
       (run_op connected (Update ''i1'' (no_inspection_update\<lparr>ui_status := Some IS_SCHEDULED\<rparr>)) store3)"
  by (simp add: completed_invariant_def startInspection_def updateInspection_def prisma_update_def
        findUnique_def publishEvent_def new_RabbitMQUtil_def connected_def store3_def store1_def
        inspection1_def apply_inspection_update_def no_inspection_update_def patch_def patch1_def
        Let_def)

section \<open>Pages of the report\<close>

lemma details_loop_first_page:
  "\<forall>d \<in> set draws. dr_page d = 0 \<Longrightarrow>
   \<forall>d \<in> set (snd (details_loop xs (y, draws))). dr_page d = 0"
proof (induction xs arbitrary: y draws)
  case Nil
  then show ?case by simp
next
  case (Cons a xs)
  have "\<forall>d \<in> set (draws @ [drawText a 50 y 12 False]). dr_page d = 0"
    using Cons.prems by (simp add: drawText_def)
  from Cons.IH[OF this] show ?case by simp
qed

lemma damages_loop_first_page:
  "\<forall>d \<in> set draws. dr_page d = 0 \<Longrightarrow>
   \<forall>d \<in> set (snd (snd (damages_loop xs (y, n, draws)))). dr_page d = 0"
proof (induction xs arbitrary: y n draws)
  case Nil
  then show ?case by simp
next
  case (Cons a xs)
  define label where "label = [CHR 0xE2, CHR 0x80, CHR 0xA2] @ '' '' @ DamageType_text (d_damageType a)
                         @ '' - '' @ Severity_text (d_severity a)
                         @ '' ('' @ d_room a @ '')''"
  have ok: "\<forall>d \<in> set (draws @ [drawText label 70 y 11 False]). dr_page d = 0"
    using Cons.prems by (simp add: drawText_def)
  show ?case
  proof (cases "y - 20 < 100")
    case True
    from Cons.IH[OF ok, of "792 - 50" "n + 1"] True show ?thesis
      by (simp add: Let_def label_def)
  next
    case False
    from Cons.IH[OF ok, of "y - 20" n] False show ?thesis
      by (simp add: Let_def label_def)
  qed
qed

lemma notes_loop_first_page:
  "\<forall>d \<in> set draws. dr_page d = 0 \<Longrightarrow>
   \<forall>d \<in> set (snd (notes_loop xs (y, draws))). dr_page d = 0"
proof (induction xs arbitrary: y draws)
  case Nil
  then show ?case by simp
next
  case (Cons a xs)
  have "\<forall>d \<in> set (draws @ [drawText a 50 y 11 False]). dr_page d = 0"
    using Cons.prems by (simp add: drawText_def)
  from Cons.IH[OF this] show ?case by simp
qed

text \<open>Whatever the inspection and its damages, every text of the report is on the first page.\<close>

lemma render_report_first_page_only:
  "\<forall>d \<in> set (pdf_draws (render_report f inspection ds)). dr_page d = 0"
proof -
  define details where "details =
            [''Inspection ID: '' @ i_id inspection,
             ''Property ID: '' @ i_propertyId inspection,
             ''Type: '' @ i_inspectionType inspection,
             ''Status: '' @ InspectionStatus_text (i_status inspection),
             ''Scheduled: '' @ f (i_scheduledAt inspection),
             ''Completed: '' @ or_str (map_option f (i_completedAt inspection)) ''N/A'',
             ''Overall Condition: '' @ or_str (i_overallCondition inspection) ''N/A'']"
  define st1 where "st1 = details_loop details (792 - 50 - 40, [drawText ''Property Inspection Report'' 50 (792 - 50) 24 True])"
  have d1: "\<forall>d \<in> set (snd st1). dr_page d = 0"
    unfolding st1_def by (rule details_loop_first_page) (simp add: drawText_def)
  define st2 where "st2 =
            (if length ds > 0
             then damages_loop ds
                    (fst st1 - 20 - 30, 1, snd st1 @ [drawText ''Damages Found:'' 50 (fst st1 - 20) 16 True])
             else (fst st1 - 20, 1, snd st1))"
  have d2: "\<forall>d \<in> set (snd (snd st2)). dr_page d = 0"
  proof (cases "length ds > 0")
    case True
    have "\<forall>d \<in> set (snd st1 @ [drawText ''Damages Found:'' 50 (fst st1 - 20) 16 True]). dr_page d = 0"
      using d1 by (simp add: drawText_def)
    from damages_loop_first_page[OF this] show ?thesis
      using True by (simp add: st2_def)
  next
    case False
    then show ?thesis using d1 by (simp add: st2_def)
  qed
  define draws3 where "draws3 =
            (if truthy_str (i_notes inspection)
             then snd (notes_loop (wrapText (or_str (i_notes inspection) []) 80)
                         (fst st2 - 20 - 25,
                          snd (snd st2) @ [drawText ''Notes:'' 50 (fst st2 - 20) 14 True]))
             else snd (snd st2))"
  have d3: "\<forall>d \<in> set draws3. dr_page d = 0"
  proof (cases "truthy_str (i_notes inspection)")
    case True
    have "\<forall>d \<in> set (snd (snd st2) @ [drawText ''Notes:'' 50 (fst st2 - 20) 14 True]). dr_page d = 0"
      using d2 by (simp add: drawText_def)
    from notes_loop_first_page[OF this] show ?thesis
      using True by (simp add: draws3_def)
  next
    case False
    then show ?thesis using d2 by (simp add: draws3_def)
  qed
  have "pdf_draws (render_report f inspection ds) = draws3"
    by (simp add: render_report_def Let_def split_beta draws3_def st2_def st1_def details_def)
  then show ?thesis using d3 by simp
qed

text \<open>
  C9 on the code. The report of an inspection with 22 damages and no notes: the position
  falls below 100 after the 21st damage, a second page is added, and the 22nd damage is
  drawn on the first page, at the height of the title (742); nothing is drawn on the
  second page.
\<close>

theorem generateReport_page_break_ignored:
  "pdf_pages (render_report (\<lambda>d. ''date'') inspection1 (replicate 22 (damage_in ''Hall''))) = 2 \<and>
   filter (\<lambda>d. dr_page d \<noteq> 0)
     (pdf_draws (render_report (\<lambda>d. ''date'') inspection1 (replicate 22 (damage_in ''Hall'')))) = [] \<and>
   map (\<lambda>d. (dr_page d, dr_y d))
     (drop 29 (pdf_draws (render_report (\<lambda>d. ''date'') inspection1 (replicate 22 (damage_in ''Hall'')))))
     = [(0, 112), (0, 742)] \<and>
   map (\<lambda>d. (dr_page d, dr_y d))
     (take 1 (pdf_draws (render_report (\<lambda>d. ''date'') inspection1 (replicate 22 (damage_in ''Hall'')))))
     = [(0, 742)]"
  by code_simp

end
